theory Spec2Isabelle
  imports Main
begin

section \<open>Errors\<close>

text \<open>
  Every failure of the JavaScript source (a thrown \<open>Error\<close>, or an error handed to the
  callback) is a value of this type. The constructors carry the kind; the message of the
  source is given beside each.
\<close>

datatype error =
    InvalidMode      \<comment> \<open>"Illegal mode ..."\<close>
  | NotFound         \<comment> \<open>"... does not exist", "File does not exist"\<close>
  | NotWritable      \<comment> \<open>"... not opened for writing" (a handle referenced by file name)\<close>
  | Corruption       \<comment> \<open>"no chunks found for file, possibly corrupt"\<close>
  | Closed           \<comment> \<open>"Cursor is closed"\<close>
  | Unsupported      \<comment> \<open>"Tailable cursor doesn't support ..."\<close>
  | BadArgument      \<comment> \<open>"limit requires an integer" and its siblings\<close>
  | ConfigError      \<comment> \<open>"No acknowledgement using w < 1 cannot be combined with journal:true or fsync:true"\<close>
  | TypeError        \<comment> \<open>a property read on \<open>undefined\<close> or \<open>null\<close>\<close>
  | RangeError       \<comment> \<open>a Buffer allocated with a negative size\<close>
  | FetchError bool  \<comment> \<open>an error of the underlying fetch; the flag is its \<open>tailable\<close> property\<close>
  | BadSort          \<comment> \<open>\<open>formattedOrderClause\<close> rejected the sort specification\<close>

section \<open>Write concern (grid_store.js, \<open>_setWriteConcernHash\<close> and \<open>_getWriteConcern\<close>)\<close>

text \<open>
  The acknowledgement level \<open>w\<close> is a number or a string (\<open>'majority'\<close>, a tag name, or
  a numeral such as \<open>'0'\<close>). The flags \<open>j\<close>, \<open>journal\<close> and \<open>fsync\<close> are booleans when
  present; \<open>None\<close> is an absent key.
\<close>

datatype wval = WNum int | WTag string

record wc_opts =
  wc_w :: "wval option"
  wc_j :: "bool option"
  wc_journal :: "bool option"
  wc_fsync :: "bool option"
  wc_wtimeout :: "int option"

definition no_wc :: wc_opts where
  "no_wc = \<lparr>wc_w = None, wc_j = None, wc_journal = None, wc_fsync = None, wc_wtimeout = None\<rparr>"

text \<open>The value of \<open>safe\<close>: absent, a boolean, or an object of write concern keys.\<close>

datatype safe_val = SafeUnset | SafeBool bool | SafeObj wc_opts

text \<open>
  The test \<open>o.w != null || typeof o.j == 'boolean' || typeof o.journal == 'boolean' ||
  typeof o.fsync == 'boolean'\<close> that selects where the write concern is read from.
\<close>

definition has_wc :: "wc_opts \<Rightarrow> bool" where
  "has_wc opts =
     (wc_w opts \<noteq> None \<or> wc_j opts \<noteq> None \<or> wc_journal opts \<noteq> None \<or> wc_fsync opts \<noteq> None)"

definition setWriteConcernHash :: "wc_opts \<Rightarrow> wc_opts" where
  "setWriteConcernHash opts =
     (let finalOptions = no_wc;
          finalOptions = (if wc_w opts \<noteq> None then finalOptions\<lparr>wc_w := wc_w opts\<rparr> else finalOptions);
          finalOptions = (if wc_journal opts = Some True
                          then finalOptions\<lparr>wc_j := wc_journal opts\<rparr> else finalOptions);
          finalOptions = (if wc_j opts = Some True then finalOptions\<lparr>wc_j := wc_j opts\<rparr> else finalOptions);
          finalOptions = (if wc_fsync opts = Some True
                          then finalOptions\<lparr>wc_fsync := wc_fsync opts\<rparr> else finalOptions);
          finalOptions = (if wc_wtimeout opts \<noteq> None
                          then finalOptions\<lparr>wc_wtimeout := wc_wtimeout opts\<rparr> else finalOptions)
      in finalOptions)"

text \<open>
  The number the platform reads a string as when it compares it with a number: white space
  around it is dropped, the empty string reads as 0, a decimal integer with an optional sign
  as its value, and a name as NaN (\<open>None\<close>). Strings in the other numeric notations
  (a fraction, an exponent, a radix prefix, \<open>Infinity\<close>) are outside the model.
\<close>

definition is_space :: "char \<Rightarrow> bool" where
  "is_space c = (c \<in> set [CHR 0x09, CHR 0x0A, CHR 0x0B, CHR 0x0C, CHR 0x0D, CHR 0x20])"

definition is_digits :: "string \<Rightarrow> bool" where
  "is_digits ds = (ds \<noteq> [] \<and> list_all (\<lambda>c. c \<in> set ''0123456789'') ds)"

definition digits_value :: "string \<Rightarrow> int" where
  "digits_value ds =
     foldl (\<lambda>acc c. 10 * acc + int (length (takeWhile (\<lambda>d. d \<noteq> c) ''0123456789''))) 0 ds"

definition ToNumber :: "string \<Rightarrow> int option" where
  "ToNumber s =
     (let t = rev (dropWhile is_space (rev (dropWhile is_space s)))
      in if t = [] then Some 0
         else if is_digits t then Some (digits_value t)
         else if hd t = CHR ''-'' \<and> is_digits (tl t) then Some (- digits_value (tl t))
         else if hd t = CHR ''+'' \<and> is_digits (tl t) then Some (digits_value (tl t))
         else None)"

text \<open>
  \<open>finalOptions.w < 1\<close>: a string is compared by the number it reads as; an absent \<open>w\<close>
  compares as NaN, and so does a name; both give false.
\<close>

fun w_lt_one :: "wval option \<Rightarrow> bool" where
  "w_lt_one (Some (WNum n)) = (n < 1)"
| "w_lt_one (Some (WTag t)) = (case ToNumber t of Some n \<Rightarrow> n < 1 | None \<Rightarrow> False)"
| "w_lt_one None = False"

text \<open>
  The options a handle is built with: the write concern keys, \<open>safe\<close>, and the keys the
  file store reads (\<open>chunkSize\<close> in the constructor, \<open>chunk_size\<close> and
  \<open>content_type\<close> when a file is opened for writing).
\<close>

record gs_options =
  opt_wc :: wc_opts
  opt_safe :: safe_val
  opt_chunkSize :: "int option"
  opt_chunk_size :: "int option"
  opt_content_type :: "string option"

text \<open>
  The file documents and chunk documents of one root namespace, with the write concern
  settings of the \<open>Db\<close> object. One file document per \<open>_id\<close>; one chunk document per
  \<open>(files_id, n)\<close>. Bytes are \<open>char\<close>s, a Buffer is a \<open>string\<close>. The database is the
  external collaborator: it answers every find, save and remove, and the branches of the source
  that pass on an error of the database are not part of the model.
\<close>

record file_doc =
  doc_filename :: "string option"
  doc_contentType :: string
  doc_length :: int
  doc_chunkSize :: int
  doc_uploadDate :: "nat option"
  doc_md5 :: string

record db =
  db_options :: wc_opts
  db_safe :: safe_val
  files :: "nat \<rightharpoonup> file_doc"
  chunks :: "(nat \<times> int) \<rightharpoonup> string"

definition getWriteConcern :: "db \<Rightarrow> gs_options \<Rightarrow> error + wc_opts" where
  "getWriteConcern self options =
     (let finalOptions =
        (if has_wc (opt_wc options) then Inr (setWriteConcernHash (opt_wc options))
         else case opt_safe options of
                SafeObj s \<Rightarrow> Inr (setWriteConcernHash s)
              | SafeBool b \<Rightarrow> Inr (no_wc\<lparr>wc_w := Some (WNum (if b then 1 else 0))\<rparr>)
              | SafeUnset \<Rightarrow>
                 (if has_wc (db_options self) then Inr (setWriteConcernHash (db_options self))
                  else case db_safe self of
                         SafeUnset \<Rightarrow> Inl TypeError
                       | SafeObj s \<Rightarrow>
                           (if has_wc s then Inr (setWriteConcernHash s)
                            else Inr (no_wc\<lparr>wc_w := Some (WNum 1)\<rparr>))
                       | SafeBool b \<Rightarrow> Inr (no_wc\<lparr>wc_w := Some (WNum (if b then 1 else 0))\<rparr>)))
      in case finalOptions of
           Inl e \<Rightarrow> Inl e
         | Inr f \<Rightarrow>
            (if w_lt_one (wc_w f)
                \<and> (wc_journal f = Some True \<or> wc_j f = Some True \<or> wc_fsync f = Some True)
             then Inl ConfigError
             else Inr f))"

section \<open>Chunk\<close>

text \<open>
  Modelled from the spec: the class \<open>Chunk\<close> (lib/gridfs/chunk.js) that grid_store.js
  requires. A chunk holds its sequence index, a byte buffer and an internal read/write cursor.
  \<open>write\<close> puts the bytes at the cursor, growing the buffer, and advances the cursor;
  \<open>readSlice n\<close> returns the bytes from the cursor on, at most \<open>n\<close> and at most what
  remains, and advances the cursor; \<open>save\<close> upserts the chunk document under
  \<open>(files_id, n)\<close>; \<open>length\<close> is the number of bytes held.
\<close>

record chunk =
  chunkNumber :: int
  data :: string
  internalPosition :: nat

text \<open>\<open>new Chunk(file, {n: k})\<close>: a fresh, empty chunk.\<close>

definition new_Chunk :: "int \<Rightarrow> chunk" where
  "new_Chunk k = \<lparr>chunkNumber = k, data = [], internalPosition = 0\<rparr>"

definition chunk_write :: "chunk \<Rightarrow> string \<Rightarrow> chunk" where
  "chunk_write c bytes =
     c\<lparr>data := take (internalPosition c) (data c) @ bytes
                 @ drop (internalPosition c + length bytes) (data c),
       internalPosition := internalPosition c + length bytes\<rparr>"

definition chunk_length :: "chunk \<Rightarrow> nat" where
  "chunk_length c = length (data c)"

definition readSlice :: "chunk \<Rightarrow> int \<Rightarrow> string \<times> chunk" where
  "readSlice c n =
     (let m = min (nat n) (length (data c) - internalPosition c)
      in (take m (drop (internalPosition c) (data c)), c\<lparr>internalPosition := internalPosition c + m\<rparr>))"

definition chunk_save :: "nat \<Rightarrow> chunk \<Rightarrow> db \<Rightarrow> db" where
  "chunk_save filesId c d = d\<lparr>chunks := (chunks d)((filesId, chunkNumber c) \<mapsto> data c)\<rparr>"

section \<open>The file handle (grid_store.js, \<open>GridStore\<close>)\<close>

text \<open>
  A handle that references its file by id (\<open>REFERENCE_BY_ID\<close>, the id an ObjectID, here a
  natural number). \<open>uploadDate\<close> is a timestamp; \<open>None\<close> stands for \<open>undefined\<close> or
  \<open>null\<close>. \<open>currentChunk\<close> is \<open>None\<close> until the handle is opened.
\<close>

record gridstore =
  fileId :: nat
  filename :: "string option"
  mode :: string
  options :: gs_options
  isOpen :: bool
  position :: int
  writeConcern :: wc_opts
  internalChunkSize :: int
  contentType :: string
  uploadDate :: "nat option"
  file_length :: int
  internalMd5 :: string
  currentChunk :: "chunk option"

text \<open>
  The constructor, called as \<open>new GridStore(db, id, filename, mode, options)\<close> with an
  ObjectID. \<open>fname\<close> and \<open>md\<close> are strings or \<open>undefined\<close> (\<open>None\<close>); when the mode is
  \<open>undefined\<close> the constructor takes the file name for the mode and leaves the file name
  \<open>undefined\<close>, and a mode that is still missing then is \<open>"r"\<close>. A mode that is \<open>null\<close> or
  an object (the options in the place of the mode) is outside these types. \<open>dflt\<close> is
  \<open>Chunk.DEFAULT_CHUNK_SIZE\<close>, a constant of chunk.js. The write concern is computed here, so
  an invalid combination is thrown at construction.
\<close>

definition GridStore :: "int \<Rightarrow> db \<Rightarrow> nat \<Rightarrow> string option \<Rightarrow> string option \<Rightarrow> gs_options
    \<Rightarrow> error + gridstore" where
  "GridStore dflt d ident fname md opts =
     (case getWriteConcern d opts of
        Inl e \<Rightarrow> Inl e
      | Inr wc \<Rightarrow>
          Inr \<lparr>fileId = ident,
               filename = (case md of None \<Rightarrow> None | Some m \<Rightarrow> fname),
               mode = (case md of
                         None \<Rightarrow> (case fname of None \<Rightarrow> ''r'' | Some f \<Rightarrow> f)
                       | Some m \<Rightarrow> m),
               options = opts, isOpen = False, position = 0, writeConcern = wc,
               internalChunkSize = (case opt_chunkSize opts of None \<Rightarrow> dflt | Some c \<Rightarrow> c),
               contentType = [], uploadDate = None, file_length = 0, internalMd5 = [],
               currentChunk = None\<rparr>)"

text \<open>The property \<open>chunkSize\<close>: its getter and its setter.\<close>

definition chunkSize :: "gridstore \<Rightarrow> int" where
  "chunkSize self = internalChunkSize self"

definition set_chunkSize :: "gridstore \<Rightarrow> int \<Rightarrow> gridstore" where
  "set_chunkSize self v =
     (if \<not> (take 1 (mode self) = ''w'' \<and> position self = 0 \<and> uploadDate self = None)
      then self\<lparr>internalChunkSize := internalChunkSize self\<rparr>
      else self\<lparr>internalChunkSize := v\<rparr>)"

section \<open>Buffers\<close>

text \<open>
  \<open>Buffer.prototype.slice(start, end)\<close> of the platform: an index at or beyond the length is
  the length, a negative index counts from the end, and what is still negative is 0.
\<close>

definition clamp :: "int \<Rightarrow> int \<Rightarrow> int" where
  "clamp i len =
     (if i \<ge> len then len else if i \<ge> 0 then i else if i + len \<ge> 0 then i + len else 0)"

definition slice :: "string \<Rightarrow> int \<Rightarrow> int \<Rightarrow> string" where
  "slice b start stop =
     (let len = int (length b); s = clamp start len; e = clamp stop len
      in take (nat (e - s)) (drop (nat s) b))"

definition slice_from :: "string \<Rightarrow> int \<Rightarrow> string" where
  "slice_from b start = slice b start (int (length b))"

text \<open>
  The buffer \<open>read\<close> fills: its cells (\<open>None\<close> is a cell of a fresh \<open>new Buffer(n)\<close> that
  nothing has been copied to yet) and the property \<open>_index\<close> that \<open>read\<close> keeps on it.
\<close>

record rbuffer =
  cells :: "char option list"
  index :: "nat option"

text \<open>\<open>source.copy(target, targetStart)\<close>: as many bytes as fit into the target.\<close>

definition buffer_copy :: "string \<Rightarrow> char option list \<Rightarrow> nat \<Rightarrow> char option list" where
  "buffer_copy src tgt start =
     (if start \<ge> length tgt then tgt
      else take start tgt @ map Some (take (length tgt - start) src)
             @ drop (start + length src) tgt)"

section \<open>Writing (grid_store.js, \<open>writeBuffer\<close>)\<close>

text \<open>
  The loop \<open>while(leftOverData.length >= self.chunkSize)\<close> of \<open>writeBuffer\<close>. With a chunk
  size below 1 it does not end; \<open>None\<close> is that outcome.
\<close>

partial_function (option) writeBuffer_loop ::
    "int \<Rightarrow> int \<Rightarrow> string \<Rightarrow> chunk list \<Rightarrow> (int \<times> string \<times> chunk list) option" where
  "writeBuffer_loop cs previousChunkNumber leftOverData chunksToWrite =
     (if int (length leftOverData) \<ge> cs then
        writeBuffer_loop cs (previousChunkNumber + 1) (slice_from leftOverData cs)
          (chunksToWrite @ [chunk_write (new_Chunk (previousChunkNumber + 1)) (slice leftOverData 0 cs)])
      else Some (previousChunkNumber, leftOverData, chunksToWrite))"

declare writeBuffer_loop.simps [code]

text \<open>
  \<open>writeBuffer\<close> up to the point where the saves of the filled chunks have been issued and
  none has completed: the handle as it is then, and the chunks whose saves are in flight. On a
  handle that is not in a write mode the source builds the message of its error with
  \<open>self.toHexString()\<close> when the file is referenced by id, as the handles here are; a
  \<open>GridStore\<close> has no such method, so what the caller gets is a TypeError.
\<close>

definition writeBuffer_sync :: "gridstore \<Rightarrow> string \<Rightarrow> (error + gridstore \<times> chunk list) option" where
  "writeBuffer_sync self buffer =
     (if take 1 (mode self) \<noteq> ''w'' then Some (Inl TypeError)
      else case currentChunk self of
        None \<Rightarrow> Some (Inl TypeError)
      | Some cur \<Rightarrow>
         (if int (internalPosition cur) + int (length buffer) \<ge> chunkSize self then
            (let previousChunkNumber = chunkNumber cur;
                 leftOverDataSize = chunkSize self - int (internalPosition cur);
                 firstChunkData = slice buffer 0 leftOverDataSize;
                 leftOverData = slice_from buffer leftOverDataSize;
                 chunksToWrite = [chunk_write cur firstChunkData]
             in case writeBuffer_loop (chunkSize self) previousChunkNumber leftOverData chunksToWrite of
                  None \<Rightarrow> None
                | Some (previousChunkNumber, leftOverData, chunksToWrite) \<Rightarrow>
                   (let fresh = new_Chunk (previousChunkNumber + 1);
                        self = self\<lparr>currentChunk :=
                                 Some (if length leftOverData > 0 then chunk_write fresh leftOverData
                                       else fresh)\<rparr>;
                        self = self\<lparr>position := position self + int (length buffer)\<rparr>
                    in Some (Inr (self, chunksToWrite))))
          else
            (let self = self\<lparr>position := position self + int (length buffer)\<rparr>;
                 self = self\<lparr>currentChunk := Some (chunk_write cur buffer)\<rparr>
             in Some (Inr (self, [])))))"

section \<open>Closing (grid_store.js, \<open>buildMongoObject\<close> and \<open>close\<close>)\<close>

text \<open>\<open>md5\<close> is the answer of the server's \<open>filemd5\<close> command.\<close>

definition buildMongoObject :: "gridstore \<Rightarrow> string \<Rightarrow> file_doc" where
  "buildMongoObject self md5 =
     \<lparr>doc_filename = filename self, doc_contentType = contentType self,
      doc_length = (if position self \<noteq> 0 then position self else 0),
      doc_chunkSize = chunkSize self, doc_uploadDate = uploadDate self, doc_md5 = md5\<rparr>"

definition files_save :: "nat \<Rightarrow> file_doc \<Rightarrow> db \<Rightarrow> db" where
  "files_save ident doc d = d\<lparr>files := (files d)(ident \<mapsto> doc)\<rparr>"

definition files_remove :: "nat \<Rightarrow> db \<Rightarrow> db" where
  "files_remove ident d = d\<lparr>files := (files d)(ident := None)\<rparr>"

text \<open>
  \<open>close\<close>. \<open>now\<close> is the value of \<open>new Date()\<close>. The result is the handle, the database
  and what the callback receives: the saved file document in a write mode, null in read mode.
\<close>

definition close :: "gridstore \<Rightarrow> nat \<Rightarrow> string \<Rightarrow> db \<Rightarrow> error + gridstore \<times> db \<times> file_doc option" where
  "close self now md5 d =
     (if take 1 (mode self) = ''w'' then
        (if currentChunk self \<noteq> None \<and> internalPosition (the (currentChunk self)) > 0 then
           (let d = chunk_save (fileId self) (the (currentChunk self)) d in
            if uploadDate self \<noteq> None then
              (let d = files_remove (fileId self) d;
                   mongoObject = buildMongoObject self md5
               in Inr (self, files_save (fileId self) mongoObject d, Some mongoObject))
            else
              (let self = self\<lparr>uploadDate := Some now\<rparr>;
                   mongoObject = buildMongoObject self md5
               in Inr (self, files_save (fileId self) mongoObject d, Some mongoObject)))
         else
           (let self = self\<lparr>uploadDate := Some now\<rparr>;
                mongoObject = buildMongoObject self md5
            in Inr (self, files_save (fileId self) mongoObject d, Some mongoObject)))
      else if take 1 (mode self) = ''r'' then Inr (self, d, None)
      else Inl InvalidMode)"

text \<open>
  \<open>writeBuffer\<close> as a whole: the synchronous part, then the saves in flight complete, then
  the handle is closed if \<open>close\<close> was asked for, then the callback.
\<close>

definition writeBuffer :: "gridstore \<Rightarrow> string \<Rightarrow> bool \<Rightarrow> nat \<Rightarrow> string \<Rightarrow> db
    \<Rightarrow> (error + gridstore \<times> db) option" where
  "writeBuffer self buffer finalClose now md5 d =
     (case writeBuffer_sync self buffer of
        None \<Rightarrow> None
      | Some (Inl e) \<Rightarrow> Some (Inl e)
      | Some (Inr (self, chunksToWrite)) \<Rightarrow>
          (let d = foldl (\<lambda>d c. chunk_save (fileId self) c d) d chunksToWrite in
           if finalClose then
             (case close self now md5 d of
                Inl e \<Rightarrow> Some (Inl e)
              | Inr (self, d, doc) \<Rightarrow> Some (Inr (self, d)))
           else Some (Inr (self, d))))"

text \<open>\<open>write(data)\<close>, without the closing flag.\<close>

definition gs_write :: "gridstore \<Rightarrow> string \<Rightarrow> db \<Rightarrow> (error + gridstore \<times> db) option" where
  "gs_write self buffer d = writeBuffer self buffer False 0 [] d"

text \<open>A sequence of \<open>write\<close> calls, each issued from the callback of the one before.\<close>

fun writes :: "gridstore \<Rightarrow> string list \<Rightarrow> db \<Rightarrow> (error + gridstore \<times> db) option" where
  "writes self [] d = Some (Inr (self, d))"
| "writes self (b # bs) d =
     (case gs_write self b d of
        None \<Rightarrow> None
      | Some (Inl e) \<Rightarrow> Some (Inl e)
      | Some (Inr (self', d')) \<Rightarrow> writes self' bs d')"

section \<open>Opening (grid_store.js, \<open>nthChunk\<close>, \<open>lastChunkNumber\<close>, \<open>deleteChunks\<close>, \<open>open\<close>)\<close>

text \<open>
  \<open>nthChunk\<close>: the chunk document \<open>(files_id, n)\<close> as a chunk with its cursor at 0, or, when
  there is none, \<open>new Chunk(self, {})\<close>, the chunk built from the empty document (with the
  class \<open>Chunk\<close>, modelled from the spec: a fresh chunk 0).
\<close>

definition nthChunk :: "gridstore \<Rightarrow> int \<Rightarrow> db \<Rightarrow> chunk" where
  "nthChunk self n d =
     (case chunks d (fileId self, n) of
        Some bytes \<Rightarrow> \<lparr>chunkNumber = n, data = bytes, internalPosition = 0\<rparr>
      | None \<Rightarrow> new_Chunk 0)"

text \<open>
  \<open>Math.floor((self.length ? self.length - 1 : 0) / self.chunkSize)\<close>; with a chunk size of 0
  the quotient is not a number (\<open>None\<close>), and no chunk document has such an index.
\<close>

definition lastChunkNumber :: "gridstore \<Rightarrow> int option" where
  "lastChunkNumber self =
     (if chunkSize self = 0 then None
      else Some ((if file_length self \<noteq> 0 then file_length self - 1 else 0) div chunkSize self))"

definition deleteChunks :: "gridstore \<Rightarrow> db \<Rightarrow> db" where
  "deleteChunks self d = d\<lparr>chunks := (\<lambda>k. if fst k = fileId self then None else chunks d k)\<rparr>"

definition DEFAULT_CONTENT_TYPE :: string where
  "DEFAULT_CONTENT_TYPE = ''binary/octet-stream''"

text \<open>
  \<open>open\<close> with \<open>_open\<close>, for a handle that references its file by id (the query is
  \<open>{_id: fileId}\<close>). The indexes \<open>open\<close> ensures in a write mode do not change the
  documents. The metadata and aliases of a file are carried along unread and are left out, and
  so is the write concern \<open>open\<close> computes again from the arguments of the constructor.
\<close>

definition gs_open :: "gridstore \<Rightarrow> db \<Rightarrow> error + gridstore \<times> db" where
  "gs_open self d =
     (if mode self \<noteq> ''w'' \<and> mode self \<noteq> ''w+'' \<and> mode self \<noteq> ''r'' then Inl InvalidMode
      else
        case (case files d (fileId self) of
                Some doc \<Rightarrow>
                  Inr (self\<lparr>filename := (if mode self = ''r'' \<or> filename self = None
                                          then doc_filename doc else filename self),
                            contentType := doc_contentType doc,
                            internalChunkSize := doc_chunkSize doc,
                            uploadDate := doc_uploadDate doc,
                            file_length := doc_length doc,
                            internalMd5 := doc_md5 doc\<rparr>)
              | None \<Rightarrow>
                  (if mode self \<noteq> ''r''
                   then Inr (self\<lparr>contentType := DEFAULT_CONTENT_TYPE, file_length := 0\<rparr>)
                   else Inl NotFound)) of
          Inl e \<Rightarrow> Inl e
        | Inr self \<Rightarrow>
           (if mode self = ''r'' then
              Inr (self\<lparr>currentChunk := Some (nthChunk self 0 d), position := 0, isOpen := True\<rparr>, d)
            else if mode self = ''w'' then
              Inr (self\<lparr>currentChunk := Some (new_Chunk 0),
                        contentType := (case opt_content_type (options self) of
                                          None \<Rightarrow> contentType self | Some t \<Rightarrow> t),
                        internalChunkSize := (case opt_chunk_size (options self) of
                                                None \<Rightarrow> internalChunkSize self | Some c \<Rightarrow> c),
                        position := 0, isOpen := True\<rparr>,
                   deleteChunks self d)
            else
              (let chunk = (case lastChunkNumber self of
                              None \<Rightarrow> new_Chunk 0
                            | Some n \<Rightarrow> nthChunk self n d)
               in Inr (self\<lparr>currentChunk := Some (chunk\<lparr>internalPosition := length (data chunk)\<rparr>),
                            position := file_length self, isOpen := True\<rparr>, d))))"

section \<open>Seeking (grid_store.js, \<open>GridStore.prototype.seek\<close>)\<close>





section \<open>Reading (grid_store.js, \<open>GridStore.prototype.read\<close>)\<close>

text \<open>
  \<open>read(length, buffer, callback)\<close>; \<open>len\<close> and \<open>buffer\<close> are \<open>None\<close> when the caller
  leaves them out. \<open>new Buffer(n)\<close> with a negative \<open>n\<close> is a RangeError. In the cases where
  the callback receives an error nothing has been read and the handle is as before.
\<close>

function read :: "gridstore \<Rightarrow> int option \<Rightarrow> rbuffer option \<Rightarrow> db \<Rightarrow> error + gridstore \<times> rbuffer" where
  "read self len buffer d =
     (let finalLength = (case len of None \<Rightarrow> file_length self - position self | Some l \<Rightarrow> l) in
      if buffer = None \<and> finalLength < 0 then Inl RangeError
      else case currentChunk self of
        None \<Rightarrow> Inl TypeError
      | Some cur \<Rightarrow>
         (let finalBuffer = (case buffer of
                               None \<Rightarrow> replicate (nat finalLength) None
                             | Some b \<Rightarrow> cells b);
              idx = (case buffer of
                       None \<Rightarrow> 0
                     | Some b \<Rightarrow> (case index b of None \<Rightarrow> 0 | Some i \<Rightarrow> i))
          in if int (chunk_length cur) - int (internalPosition cur) + int idx \<ge> finalLength then
               (let rs = readSlice cur (finalLength - int idx);
                    finalBuffer = buffer_copy (fst rs) finalBuffer idx;
                    self = self\<lparr>currentChunk := Some (snd rs),
                                position := position self + int (length finalBuffer)\<rparr>
                in if finalLength = 0 \<and> length finalBuffer = 0 then Inl NotFound
                   else Inr (self, \<lparr>cells = finalBuffer, index = Some idx\<rparr>))
             else
               (let rs = readSlice cur (int (chunk_length cur) - int (internalPosition cur));
                    finalBuffer = buffer_copy (fst rs) finalBuffer idx;
                    idx = idx + length (fst rs);
                    self = self\<lparr>currentChunk := Some (snd rs)\<rparr>;
                    chunk = nthChunk self (chunkNumber (snd rs) + 1) d
                in if chunk_length chunk > 0 then
                     read (self\<lparr>currentChunk := Some chunk\<rparr>) len
                       (Some \<lparr>cells = finalBuffer, index = Some idx\<rparr>) d
                   else if idx > 0 then Inr (self, \<lparr>cells = finalBuffer, index = Some idx\<rparr>)
                   else Inl Corruption)))"
  by pat_completeness auto
termination
proof (relation "measure (\<lambda>(self, len, buffer, d).
          2 * nat ((case len of None \<Rightarrow> file_length self - position self | Some l \<Rightarrow> l)
                   - int (case buffer of
                            None \<Rightarrow> 0
                          | Some b \<Rightarrow> (case index b of None \<Rightarrow> 0 | Some i \<Rightarrow> i)))
          + (case currentChunk self of
               None \<Rightarrow> 0
             | Some c \<Rightarrow> if internalPosition c < length (data c) then 0 else 1))", goal_cases)
  case 1
  show ?case by simp
next
  case (2 self len buffer d finalLength cur finalBuffer idx rs finalBuffer' idx' self' chunk)
  then show ?case
    by (auto simp: chunk_length_def readSlice_def nthChunk_def new_Chunk_def Let_def
        split: option.splits if_splits)
qed

declare read.simps [simp del]

text \<open>Opening a handle and reading the whole file: \<open>open\<close>, then \<open>read(callback)\<close>.\<close>

definition read_all :: "gridstore \<Rightarrow> db \<Rightarrow> error + char option list" where
  "read_all self d =
     (case gs_open self d of
        Inl e \<Rightarrow> Inl e
      | Inr (self, d) \<Rightarrow>
         (case read self None None d of
            Inl e \<Rightarrow> Inl e
          | Inr (self, b) \<Rightarrow> Inr (cells b)))"

text \<open>
  The three values \<open>read\<close> computes first: \<open>finalLength\<close>, \<open>finalBuffer\<close> and
  \<open>finalBuffer._index\<close>.
\<close>

definition final_length :: "gridstore \<Rightarrow> int option \<Rightarrow> int" where
  "final_length self len = (case len of None \<Rightarrow> file_length self - position self | Some l \<Rightarrow> l)"

definition final_buffer :: "gridstore \<Rightarrow> int option \<Rightarrow> rbuffer option \<Rightarrow> char option list" where
  "final_buffer self len buffer =
     (case buffer of None \<Rightarrow> replicate (nat (final_length self len)) None | Some b \<Rightarrow> cells b)"

definition buffer_index :: "rbuffer option \<Rightarrow> nat" where
  "buffer_index buffer =
     (case buffer of None \<Rightarrow> 0 | Some b \<Rightarrow> (case index b of None \<Rightarrow> 0 | Some i \<Rightarrow> i))"

section \<open>The streaming cursor (\<open>Cursor\<close>)\<close>

datatype cstate = INIT | OPEN | CLOSED | GET_MORE

text \<open>The JavaScript values handed to the query-shape mutators.\<close>

datatype jsval = JUndefined | JNum int | JStr string | JArr "jsval list"

fun truthy :: "jsval \<Rightarrow> bool" where
  "truthy JUndefined = False"
| "truthy (JNum n) = (n \<noteq> 0)"
| "truthy (JStr s) = (s \<noteq> [])"
| "truthy (JArr xs) = True"

text \<open>
  The variables the closure of the constructor holds (\<open>state\<close>, the retry settings and
  counter), the fields of \<open>cmd\<close> and \<open>options\<close> the methods read and write, and the
  answer of \<open>isDead()\<close>, which the core cursor of mongodb-core gives.
\<close>

record cursor =
  state :: cstate
  tailable :: bool
  dead :: bool
  numberOfRetries :: int
  tailableRetryInterval :: int
  currentNumberOfRetries :: int
  cmd_limit :: "int option"
  cmd_skip :: "int option"
  cmd_batchSize :: "int option"
  cmd_orderby :: jsval
  cursorLimit :: "int option"
  cursorSkip :: "int option"
  cursorBatchSize :: "int option"

record cursor_options =
  o_tailable :: bool
  o_numberOfRetries :: "int option"
  o_tailableRetryInterval :: "int option"

text \<open>\<open>x || d\<close> on an optional number: an absent value and 0 both give the default.\<close>

definition or_default :: "int option \<Rightarrow> int \<Rightarrow> int" where
  "or_default x d = (case x of None \<Rightarrow> d | Some n \<Rightarrow> if n = 0 then d else n)"

definition Cursor :: "cursor_options \<Rightarrow> jsval \<Rightarrow> cursor" where
  "Cursor opts orderby =
     \<lparr>state = INIT, tailable = o_tailable opts, dead = False,
      numberOfRetries = or_default (o_numberOfRetries opts) 5,
      tailableRetryInterval = or_default (o_tailableRetryInterval opts) 500,
      currentNumberOfRetries = or_default (o_numberOfRetries opts) 5,
      cmd_limit = None, cmd_skip = None, cmd_batchSize = None, cmd_orderby = orderby,
      cursorLimit = None, cursorSkip = None, cursorBatchSize = None\<rparr>"

text \<open>
  One answer of the underlying fetch \<open>self.next\<close>: an error, or a document (\<open>None\<close> is
  the null document of an exhausted cursor). Documents are identified by a number.
\<close>

datatype fetch = Failed error | Doc "nat option"

fun is_tailable :: "error \<Rightarrow> bool" where
  "is_tailable (FetchError t) = t"
| "is_tailable _ = False"

text \<open>
  \<open>nextObject\<close>, run against the answers the server will give, in order. The result is
  the cursor afterwards, what the callback received (\<open>None\<close>: the answers ran out and the
  callback has not been called), the delays waited before each retry, and the answers left.
  \<open>fmt\<close> is \<open>formattedOrderClause\<close> of utils.js.
\<close>

fun nextObject :: "(jsval \<Rightarrow> error + jsval) \<Rightarrow> cursor \<Rightarrow> fetch list
    \<Rightarrow> cursor \<times> (error + nat option) option \<times> int list \<times> fetch list" where
  "nextObject fmt c [] =
     (if state c = CLOSED \<or> dead c then (c, Some (Inl Closed), [], [])
      else if state c = INIT \<and> truthy (cmd_orderby c) then
        (case fmt (cmd_orderby c) of
           Inl e \<Rightarrow> (c, Some (Inl e), [], [])
         | Inr ob \<Rightarrow> (c\<lparr>cmd_orderby := ob\<rparr>, None, [], []))
      else (c, None, [], []))"
| "nextObject fmt c (r # rest) =
     (if state c = CLOSED \<or> dead c then (c, Some (Inl Closed), [], r # rest)
      else
        case (if state c = INIT \<and> truthy (cmd_orderby c)
              then (case fmt (cmd_orderby c) of
                      Inl e \<Rightarrow> Inl e
                    | Inr ob \<Rightarrow> Inr (c\<lparr>cmd_orderby := ob\<rparr>))
              else Inr c) of
          Inl e \<Rightarrow> (c, Some (Inl e), [], r # rest)
        | Inr c1 \<Rightarrow>
           (case r of
              Failed err \<Rightarrow>
                (if is_tailable err \<and> currentNumberOfRetries c1 = 0
                 then (c1, Some (Inl err), [], rest)
                 else if is_tailable err \<and> currentNumberOfRetries c1 > 0
                 then (case nextObject fmt
                              (c1\<lparr>currentNumberOfRetries := currentNumberOfRetries c1 - 1\<rparr>) rest of
                         (c2, out, ds, rest') \<Rightarrow> (c2, out, tailableRetryInterval c1 # ds, rest'))
                 else (c1\<lparr>state := OPEN\<rparr>, Some (Inl err), [], rest))
            | Doc doc \<Rightarrow> (c1\<lparr>state := OPEN\<rparr>, Some (Inr doc), [], rest)))"

definition limit :: "cursor \<Rightarrow> jsval \<Rightarrow> error + cursor" where
  "limit c v =
     (if tailable c then Inl Unsupported
      else if state c = OPEN \<or> state c = CLOSED \<or> dead c then Inl Closed
      else case v of
             JNum n \<Rightarrow> Inr (c\<lparr>cmd_limit := Some n, cursorLimit := Some n\<rparr>)
           | _ \<Rightarrow> Inl BadArgument)"

definition skip :: "cursor \<Rightarrow> jsval \<Rightarrow> error + cursor" where
  "skip c v =
     (if tailable c then Inl Unsupported
      else if state c = OPEN \<or> state c = CLOSED \<or> dead c then Inl Closed
      else case v of
             JNum n \<Rightarrow> Inr (c\<lparr>cmd_skip := Some n, cursorSkip := Some n\<rparr>)
           | _ \<Rightarrow> Inl BadArgument)"

definition batchSize :: "cursor \<Rightarrow> jsval \<Rightarrow> error + cursor" where
  "batchSize c v =
     (if tailable c then Inl Unsupported
      else if state c = CLOSED \<or> dead c then Inl Closed
      else case v of
             JNum n \<Rightarrow> Inr (c\<lparr>cmd_batchSize := Some n, cursorBatchSize := Some n\<rparr>)
           | _ \<Rightarrow> Inl BadArgument)"

definition sort_cursor :: "cursor \<Rightarrow> jsval \<Rightarrow> jsval option \<Rightarrow> error + cursor" where
  "sort_cursor c keyOrList direction =
     (if tailable c then Inl Unsupported
      else if state c = CLOSED \<or> state c = OPEN \<or> dead c then Inl Closed
      else Inr (c\<lparr>cmd_orderby :=
                    (case direction of
                       None \<Rightarrow> keyOrList
                     | Some dir \<Rightarrow> JArr [JArr [keyOrList, dir]])\<rparr>))"

section \<open>Sessions and the layout of a payload in chunks\<close>

text \<open>A whole write session: \<open>open\<close>, the \<open>write\<close> calls, \<open>close\<close>.\<close>

definition write_session :: "gridstore \<Rightarrow> string list \<Rightarrow> nat \<Rightarrow> string \<Rightarrow> db
    \<Rightarrow> (error + gridstore \<times> db) option" where
  "write_session self bufs now md5 d =
     (case gs_open self d of
        Inl e \<Rightarrow> Some (Inl e)
      | Inr (self, d) \<Rightarrow>
         (case writes self bufs d of
            None \<Rightarrow> None
          | Some (Inl e) \<Rightarrow> Some (Inl e)
          | Some (Inr (self, d)) \<Rightarrow>
             (case close self now md5 d of
                Inl e \<Rightarrow> Some (Inl e)
              | Inr (self, d, doc) \<Rightarrow> Some (Inr (self, d)))))"

text \<open>The indices of the chunk documents a file has in the database.\<close>

definition persisted :: "nat \<Rightarrow> db \<Rightarrow> int set" where
  "persisted fid d = {n. chunks d (fid, n) \<noteq> None}"

text \<open>\<open>ceil(n / c)\<close> on natural numbers.\<close>

definition ceil_div :: "nat \<Rightarrow> nat \<Rightarrow> nat" where
  "ceil_div n c = (n + c - 1) div c"

text \<open>The chunk documents of a file whose content is \<open>P\<close>: chunk \<open>n\<close> holds the bytes from \<open>n * c\<close> on, at most \<open>c\<close> of them.\<close>

definition chunked :: "nat \<Rightarrow> string \<Rightarrow> int \<Rightarrow> string option" where
  "chunked c P n = (if 0 \<le> n \<and> nat n * c < length P then Some (take c (drop (nat n * c) P)) else None)"

text \<open>The \<open>n\<close>-th chunk of the payload \<open>P\<close>, filled to the chunk size \<open>c\<close>.\<close>

definition full_chunk :: "nat \<Rightarrow> string \<Rightarrow> nat \<Rightarrow> chunk" where
  "full_chunk c P n = \<lparr>chunkNumber = int n, data = take c (drop (n * c) P), internalPosition = c\<rparr>"

text \<open>The current chunk of a handle that has written the payload \<open>P\<close> from position 0.\<close>

definition cur_of :: "nat \<Rightarrow> string \<Rightarrow> chunk" where
  "cur_of c P = \<lparr>chunkNumber = int (length P div c), data = drop (length P div c * c) P,
                 internalPosition = length P mod c\<rparr>"

text \<open>The database after the full chunks \<open>k, \<dots>, k' - 1\<close> of the payload \<open>P\<close> have been saved.\<close>

definition store_range :: "nat \<Rightarrow> nat \<Rightarrow> string \<Rightarrow> nat \<Rightarrow> nat \<Rightarrow> db \<Rightarrow> db" where
  "store_range fid c P k k' d =
     d\<lparr>chunks := (\<lambda>key. if fst key = fid \<and> int k \<le> snd key \<and> snd key < int k'
                         then Some (take c (drop (nat (snd key) * c) P)) else chunks d key)\<rparr>"

text \<open>Chunk \<open>j\<close> of the payload \<open>P\<close> as \<open>nthChunk\<close> loads it.\<close>

definition loaded :: "nat \<Rightarrow> string \<Rightarrow> nat \<Rightarrow> chunk" where
  "loaded c P j = \<lparr>chunkNumber = int j, data = take c (drop (j * c) P), internalPosition = 0\<rparr>"

text \<open>The buffer of \<open>read\<close> when the chunks before \<open>j\<close> have been copied into it.\<close>

definition buf_at :: "nat \<Rightarrow> string \<Rightarrow> nat \<Rightarrow> rbuffer" where
  "buf_at c P j = \<lparr>cells = map Some (take (j * c) P) @ replicate (length P - j * c) None,
                   index = Some (j * c)\<rparr>"


section \<open>Sample values\<close>

text \<open>A database with no documents whose \<open>Db\<close> object was created with \<open>{w: 1}\<close>.\<close>

definition empty_db :: db where
  "empty_db = \<lparr>db_options = no_wc\<lparr>wc_w := Some (WNum 1)\<rparr>, db_safe = SafeBool False,
               files = Map.empty, chunks = Map.empty\<rparr>"

definition no_options :: gs_options where
  "no_options = \<lparr>opt_wc = no_wc, opt_safe = SafeUnset, opt_chunkSize = None,
                 opt_chunk_size = None, opt_content_type = None\<rparr>"

text \<open>The handle \<open>new GridStore(db, 1, undefined, md, {chunkSize: cs})\<close> on that database.\<close>

definition sample_handle :: "string \<Rightarrow> int \<Rightarrow> gridstore" where
  "sample_handle md cs =
     \<lparr>fileId = 1, filename = None, mode = md, options = no_options\<lparr>opt_chunkSize := Some cs\<rparr>,
      isOpen = False, position = 0, writeConcern = no_wc\<lparr>wc_w := Some (WNum 1)\<rparr>,
      internalChunkSize = cs, contentType = [], uploadDate = None, file_length = 0,
      internalMd5 = [], currentChunk = None\<rparr>"

text \<open>The sample write-mode handle after \<open>open\<close> on the empty database.\<close>

definition opened :: "int \<Rightarrow> gridstore" where
  "opened cs = (sample_handle ''w'' cs)\<lparr>contentType := DEFAULT_CONTENT_TYPE,
      currentChunk := Some (new_Chunk 0), isOpen := True\<rparr>"

text \<open>The database after an empty write session on the sample handle, closed at time 100.\<close>

definition empty_file_db :: db where
  "empty_file_db = empty_db\<lparr>files := [1 \<mapsto> \<lparr>doc_filename = None, doc_contentType = DEFAULT_CONTENT_TYPE,
       doc_length = 0, doc_chunkSize = 4, doc_uploadDate = Some 100, doc_md5 = []\<rparr>]\<rparr>"

text \<open>A file document of the sample file: \<open>n\<close> bytes in chunks of 4, uploaded at time \<open>t\<close>.\<close>

definition sample_doc :: "int \<Rightarrow> nat \<Rightarrow> file_doc" where
  "sample_doc n t = \<lparr>doc_filename = None, doc_contentType = DEFAULT_CONTENT_TYPE,
       doc_length = n, doc_chunkSize = 4, doc_uploadDate = Some t, doc_md5 = []\<rparr>"

text \<open>
  A database where the sample file has 11 bytes and chunk 1 is missing, and one where
  all its chunks are missing.
\<close>

definition gap_db :: db where
  "gap_db = empty_db\<lparr>files := [1 \<mapsto> sample_doc 11 100],
                      chunks := [(1, 0) \<mapsto> ''hell'', (1, 2) \<mapsto> ''rld'']\<rparr>"

definition lost_db :: db where
  "lost_db = empty_db\<lparr>files := [1 \<mapsto> sample_doc 11 100]\<rparr>"

text \<open>The sample read-mode handle after \<open>open\<close> on a database that holds the sample file.\<close>

definition reader :: "int \<Rightarrow> db \<Rightarrow> gridstore" where
  "reader n d = (sample_handle ''r'' 4)\<lparr>contentType := DEFAULT_CONTENT_TYPE, uploadDate := Some 100,
       file_length := n, currentChunk := Some (nthChunk (sample_handle ''r'' 4) 0 d), isOpen := True\<rparr>"

text \<open>
  The sample write-mode handle and the database after the session that writes \<open>''abcd''\<close>
  with chunk size 4 and closes at time \<open>t\<close>.
\<close>

definition abcd_handle :: "nat \<Rightarrow> gridstore" where
  "abcd_handle t = (opened 4)\<lparr>position := 4, currentChunk := Some (new_Chunk 1),
                                uploadDate := Some t\<rparr>"

definition abcd_db :: "nat \<Rightarrow> db" where
  "abcd_db t = empty_db\<lparr>files := [1 \<mapsto> sample_doc 4 t], chunks := [(1, 0) \<mapsto> ''abcd'']\<rparr>"

text \<open>
  The handle and the database after the session that writes \<open>''hello world''\<close> with chunk
  size 4 and closes at time 100.
\<close>

definition hello_handle :: gridstore where
  "hello_handle = (opened 4)\<lparr>position := 11,
       currentChunk := Some \<lparr>chunkNumber = 2, data = ''rld'', internalPosition = 3\<rparr>,
       uploadDate := Some 100\<rparr>"

definition hello_db :: db where
  "hello_db = empty_db\<lparr>files := [1 \<mapsto> sample_doc 11 100],
       chunks := [(1, 0) \<mapsto> ''hell'', (1, 1) \<mapsto> ''o wo'', (1, 2) \<mapsto> ''rld'']\<rparr>"



text \<open>A cursor with \<open>numberOfRetries: n\<close> and no sort order.\<close>

definition sample_cursor :: "bool \<Rightarrow> int \<Rightarrow> cursor" where
  "sample_cursor tb n =
     Cursor \<lparr>o_tailable = tb, o_numberOfRetries = Some n, o_tailableRetryInterval = None\<rparr> JUndefined"

text \<open>A \<open>formattedOrderClause\<close> that accepts every specification as it is.\<close>

definition fmt_id :: "jsval \<Rightarrow> error + jsval" where
  "fmt_id ob = Inr ob"

section \<open>Theorems\<close>

subsection \<open>The chunk size property\<close>

text \<open>
  C6. An assignment to \<open>chunkSize\<close> on a handle whose position is not 0, or that has an
  upload date, or whose mode is not a write mode, leaves the handle as it was (the setter is a
  total function: it raises nothing); and a handle whose chunk size the assignment did change
  is a write-mode handle at position 0 with no upload date, which then holds the assigned value.
\<close>

theorem chunkSize_write_once:
  "(position self \<noteq> 0 \<or> uploadDate self \<noteq> None \<or> take 1 (mode self) \<noteq> ''w''
      \<longrightarrow> set_chunkSize self v = self)
   \<and> (chunkSize (set_chunkSize self v) \<noteq> chunkSize self
      \<longrightarrow> take 1 (mode self) = ''w'' \<and> position self = 0 \<and> uploadDate self = None
          \<and> chunkSize (set_chunkSize self v) = v)"
  by (auto simp: set_chunkSize_def chunkSize_def)

theorem chunkSize_write_once_witness:
  "set_chunkSize ((sample_handle ''w'' 4)\<lparr>position := 3\<rparr>) 8 = (sample_handle ''w'' 4)\<lparr>position := 3\<rparr>
   \<and> set_chunkSize (sample_handle ''r'' 4) 8 = sample_handle ''r'' 4
   \<and> chunkSize (set_chunkSize (sample_handle ''w'' 4) 8) = 8"
  using chunkSize_write_once [of "(sample_handle ''w'' 4)\<lparr>position := 3\<rparr>" 8]
        chunkSize_write_once [of "sample_handle ''r'' 4" 8]
        chunkSize_write_once [of "sample_handle ''w'' 4" 8]
  by (simp add: sample_handle_def chunkSize_def set_chunkSize_def)

subsection \<open>Write concern\<close>

lemma GridStore_sample:
  "GridStore 261120 empty_db 1 None (Some md) (no_options\<lparr>opt_chunkSize := Some cs\<rparr>)
     = Inr (sample_handle md cs)"
  by (simp add: GridStore_def getWriteConcern_def has_wc_def no_options_def no_wc_def empty_db_def
      setWriteConcernHash_def sample_handle_def)

text \<open>
  A level given as a string is compared by the number it reads as: \<open>'0'\<close> and the empty
  string are below 1 and are rejected with \<open>fsync: true\<close> or \<open>j: true\<close>; a name is not.
\<close>

lemma string_level_compared_as_number:
  "getWriteConcern empty_db
     (no_options\<lparr>opt_wc := no_wc\<lparr>wc_w := Some (WTag ''0''), wc_fsync := Some True\<rparr>\<rparr>)
     = Inl ConfigError
   \<and> getWriteConcern empty_db
     (no_options\<lparr>opt_wc := no_wc\<lparr>wc_w := Some (WTag []), wc_j := Some True\<rparr>\<rparr>)
     = Inl ConfigError
   \<and> getWriteConcern empty_db
     (no_options\<lparr>opt_wc := no_wc\<lparr>wc_w := Some (WTag ''-1 ''), wc_journal := Some True\<rparr>\<rparr>)
     = Inl ConfigError
   \<and> getWriteConcern empty_db
     (no_options\<lparr>opt_wc := no_wc\<lparr>wc_w := Some (WTag ''2''), wc_j := Some True\<rparr>\<rparr>)
     = Inr (no_wc\<lparr>wc_w := Some (WTag ''2''), wc_j := Some True\<rparr>)
   \<and> getWriteConcern empty_db
     (no_options\<lparr>opt_wc := no_wc\<lparr>wc_w := Some (WTag ''majority''), wc_j := Some True\<rparr>\<rparr>)
     = Inr (no_wc\<lparr>wc_w := Some (WTag ''majority''), wc_j := Some True\<rparr>)"
  by (simp add: getWriteConcern_def has_wc_def setWriteConcernHash_def no_options_def no_wc_def
      ToNumber_def is_space_def is_digits_def digits_value_def Let_def)

text \<open>
  C9. Options whose acknowledgement level is a number below 1 and that set \<open>fsync: true\<close>,
  \<open>j: true\<close> or \<open>journal: true\<close> are rejected: the write concern is not built, and the
  constructor of the handle fails with the same configuration error, whatever the database
  object, the id, the file name and the mode.
\<close>

theorem write_concern_rejects_unacknowledged_sync:
  assumes "wc_w (opt_wc opts) = Some (WNum n)" and "n < 1"
    and "wc_fsync (opt_wc opts) = Some True \<or> wc_j (opt_wc opts) = Some True
         \<or> wc_journal (opt_wc opts) = Some True"
  shows "getWriteConcern d opts = Inl ConfigError
         \<and> GridStore dflt d ident fname md opts = Inl ConfigError"
proof -
  have sel: "has_wc (opt_wc opts)"
    using assms(1) by (simp add: has_wc_def)
  have lt: "w_lt_one (wc_w (setWriteConcernHash (opt_wc opts)))"
    using assms(1,2) by (simp add: setWriteConcernHash_def Let_def no_wc_def)
  have flag: "wc_j (setWriteConcernHash (opt_wc opts)) = Some True
              \<or> wc_fsync (setWriteConcernHash (opt_wc opts)) = Some True"
    using assms(3) by (auto simp: setWriteConcernHash_def Let_def no_wc_def)
  have "getWriteConcern d opts = Inl ConfigError"
    using sel lt flag by (auto simp: getWriteConcern_def Let_def)
  then show ?thesis by (simp add: GridStore_def)
qed

theorem write_concern_rejects_unacknowledged_sync_witness:
  "GridStore 261120 empty_db 1 None (Some ''w'')
     (no_options\<lparr>opt_wc := no_wc\<lparr>wc_w := Some (WNum 0), wc_fsync := Some True\<rparr>\<rparr>) = Inl ConfigError
   \<and> getWriteConcern empty_db
     (no_options\<lparr>opt_wc := no_wc\<lparr>wc_w := Some (WNum 0), wc_j := Some True\<rparr>\<rparr>) = Inl ConfigError"
  using write_concern_rejects_unacknowledged_sync
          [of "no_options\<lparr>opt_wc := no_wc\<lparr>wc_w := Some (WNum 0), wc_fsync := Some True\<rparr>\<rparr>" 0
              empty_db 261120 1 None "Some ''w''"]
        write_concern_rejects_unacknowledged_sync
          [of "no_options\<lparr>opt_wc := no_wc\<lparr>wc_w := Some (WNum 0), wc_j := Some True\<rparr>\<rparr>" 0
              empty_db 261120 1 None "Some ''w''"]
  by (simp add: no_options_def no_wc_def)

subsection \<open>Query-shape mutators of the cursor\<close>

lemma sample_cursor_simps:
  "state (sample_cursor tb n) = INIT" "dead (sample_cursor tb n) = False"
  "tailable (sample_cursor tb n) = tb" "cmd_orderby (sample_cursor tb n) = JUndefined"
  "currentNumberOfRetries (sample_cursor tb n) = (if n = 0 then 5 else n)"
  "tailableRetryInterval (sample_cursor tb n) = 500"
  by (simp_all add: sample_cursor_def Cursor_def or_default_def)

text \<open>
  C7 (as amended). On a tailable cursor \<open>limit\<close>, \<open>skip\<close>, \<open>batchSize\<close> and \<open>sort\<close>
  all fail. On a cursor that is not tailable, \<open>limit\<close>, \<open>skip\<close> and \<open>sort\<close> fail once
  the state is OPEN or CLOSED or the cursor is dead; \<open>batchSize\<close> fails once the state is
  CLOSED or the cursor is dead, and in the state OPEN it is accepted and sets the batch size.
\<close>

theorem query_shape_mutators_guarded:
  "(tailable c \<longrightarrow> limit c v = Inl Unsupported \<and> skip c v = Inl Unsupported
        \<and> batchSize c v = Inl Unsupported \<and> sort_cursor c v dir = Inl Unsupported)
   \<and> (\<not> tailable c \<and> (state c = OPEN \<or> state c = CLOSED \<or> dead c)
        \<longrightarrow> limit c v = Inl Closed \<and> skip c v = Inl Closed \<and> sort_cursor c v dir = Inl Closed)
   \<and> (\<not> tailable c \<and> (state c = CLOSED \<or> dead c) \<longrightarrow> batchSize c v = Inl Closed)
   \<and> (\<not> tailable c \<and> state c = OPEN \<and> \<not> dead c
        \<longrightarrow> batchSize c (JNum n) = Inr (c\<lparr>cmd_batchSize := Some n, cursorBatchSize := Some n\<rparr>))"
  by (auto simp: limit_def skip_def batchSize_def sort_cursor_def)

theorem query_shape_mutators_guarded_witness:
  "limit (sample_cursor True 5) (JNum 10) = Inl Unsupported
   \<and> batchSize (sample_cursor True 5) (JNum 10) = Inl Unsupported
   \<and> sort_cursor ((sample_cursor False 5)\<lparr>state := OPEN\<rparr>) (JStr ''a'') None = Inl Closed
   \<and> skip ((sample_cursor False 5)\<lparr>state := CLOSED\<rparr>) (JNum 10) = Inl Closed
   \<and> batchSize ((sample_cursor False 5)\<lparr>state := CLOSED\<rparr>) (JNum 10) = Inl Closed
   \<and> batchSize ((sample_cursor False 5)\<lparr>state := OPEN\<rparr>) (JNum 10)
       = Inr ((sample_cursor False 5)\<lparr>state := OPEN, cmd_batchSize := Some 10, cursorBatchSize := Some 10\<rparr>)"
  using query_shape_mutators_guarded [of "sample_cursor True 5" "JNum 10" None 10]
        query_shape_mutators_guarded [of "(sample_cursor False 5)\<lparr>state := OPEN\<rparr>" "JStr ''a''" None 10]
        query_shape_mutators_guarded [of "(sample_cursor False 5)\<lparr>state := CLOSED\<rparr>" "JNum 10" None 10]
  by (simp add: sample_cursor_simps)

text \<open>
  C7 as stated fails for \<open>batchSize\<close>: after \<open>nextObject\<close> has delivered a document the
  state is OPEN, \<open>limit\<close> is refused there and \<open>batchSize\<close> is accepted.
\<close>

theorem batchSize_open_counterexample:
  "batchSize (fst (nextObject fmt_id (sample_cursor False 5) [Doc (Some 1)])) (JNum 10)
     = Inr ((sample_cursor False 5)\<lparr>state := OPEN, cmd_batchSize := Some 10, cursorBatchSize := Some 10\<rparr>)
   \<and> limit (fst (nextObject fmt_id (sample_cursor False 5) [Doc (Some 1)])) (JNum 10) = Inl Closed"
  by (simp add: sample_cursor_simps batchSize_def limit_def)

subsection \<open>Retries of \<open>nextObject\<close>\<close>








subsection \<open>A write fills the chunks of the payload\<close>

lemma slice_0: "0 \<le> n \<Longrightarrow> slice b 0 n = take (nat n) b"
  by (auto simp: slice_def clamp_def Let_def min_def)

lemma slice_from_nonneg: "0 \<le> n \<Longrightarrow> slice_from b n = drop (nat n) b"
  by (auto simp: slice_from_def slice_def clamp_def Let_def)

lemma write_fresh_full:
  "c \<le> length xs \<Longrightarrow> chunk_write (new_Chunk (int k)) (take c xs)
     = \<lparr>chunkNumber = int k, data = take c xs, internalPosition = c\<rparr>"
  by (simp add: chunk_write_def new_Chunk_def)

lemma loop_spec:
  assumes c: "1 \<le> c"
  shows "k * c \<le> length P \<Longrightarrow>
         writeBuffer_loop (int c) (int k - 1) (drop (k * c) P) acc
           = Some (int (length P div c) - 1, drop (length P div c * c) P,
                   acc @ map (full_chunk c P) [k ..< length P div c])"
proof (induction "length P div c - k" arbitrary: k acc)
  case 0
  have "k \<le> length P div c"
    using 0(2) c by (simp add: less_eq_div_iff_mult_less_eq)
  with 0(1) have k: "k = length P div c" by simp
  have "length P - k * c < c"
    using c k by (metis Suc_le_lessD One_nat_def minus_mult_div_eq_mod mod_less_divisor mult.commute)
  then have nlen: "\<not> int c \<le> int (length (drop (k * c) P))" by simp
  have "writeBuffer_loop (int c) (int k - 1) (drop (k * c) P) acc
          = Some (int k - 1, drop (k * c) P, acc)"
    by (subst writeBuffer_loop.simps) (simp only: nlen if_False)
  then show ?case using k by simp
next
  case (Suc x)
  then have lt: "k < length P div c" by simp
  then have le: "Suc k * c \<le> length P"
    using c by (metis Suc_leI less_eq_div_iff_mult_less_eq Suc_le_lessD One_nat_def)
  have len: "c \<le> length (drop (k * c) P)" using le by simp
  have IH: "writeBuffer_loop (int c) (int (Suc k) - 1) (drop (Suc k * c) P)
              (acc @ [full_chunk c P k])
            = Some (int (length P div c) - 1, drop (length P div c * c) P,
                    (acc @ [full_chunk c P k]) @ map (full_chunk c P) [Suc k ..< length P div c])"
    using Suc(2) le by (intro Suc(1)) auto
  have step: "writeBuffer_loop (int c) (int k - 1) (drop (k * c) P) acc
              = writeBuffer_loop (int c) (int (Suc k) - 1) (drop (Suc k * c) P)
                  (acc @ [full_chunk c P k])"
    using len
    by (subst writeBuffer_loop.simps)
       (simp add: slice_0 slice_from_nonneg write_fresh_full full_chunk_def add.commute)
  show ?case
    using lt by (simp only: step IH) (simp add: upt_conv_Cons)
qed

lemma divmod_unique: "q * c + r = (L::nat) \<Longrightarrow> r < c \<Longrightarrow> L div c = q \<and> L mod c = r"
  by auto

lemma div_small: "L mod c + n < c \<Longrightarrow> (L + n) div c = L div (c::nat)"
  using divmod_unique [of "L div c" c "L mod c + n" "L + n"] by simp

lemma mod_small: "L mod c + n < c \<Longrightarrow> (L + n) mod c = L mod (c::nat) + n"
  using divmod_unique [of "L div c" c "L mod c + n" "L + n"] by simp

lemma cur_write_small:
  assumes "length P mod c + length buf < c"
  shows "chunk_write (cur_of c P) buf = cur_of c (P @ buf)"
  using assms
  by (simp add: chunk_write_def cur_of_def minus_div_mult_eq_mod div_small mod_small)

lemma cur_write_fill:
  assumes "1 \<le> c" "c \<le> length P mod c + length buf"
  shows "chunk_write (cur_of c P) (take (c - length P mod c) buf) = full_chunk c (P @ buf) (length P div c)"
  using assms
  by (simp add: chunk_write_def cur_of_def minus_div_mult_eq_mod full_chunk_def min_def le_diff_conv2)

lemma writeBuffer_sync_spec:
  assumes c: "1 \<le> c" and md: "take 1 (mode self) = ''w''" and cs: "chunkSize self = int c"
    and cur: "currentChunk self = Some (cur_of c P)"
  shows "writeBuffer_sync self buf
           = Some (Inr (self\<lparr>currentChunk := Some (cur_of c (P @ buf)),
                             position := position self + int (length buf)\<rparr>,
                        map (full_chunk c (P @ buf)) [length P div c ..< length (P @ buf) div c]))"
proof (cases "length P mod c + length buf < c")
  case True
  have pos: "internalPosition (cur_of c P) = length P mod c" by (simp add: cur_of_def)
  show ?thesis
    using True md cs cur
    by (simp add: writeBuffer_sync_def pos cur_write_small div_small)
next
  case False
  define q r P' where "q = length P div c" and "r = length P mod c" and "P' = P @ buf"
  have pos: "internalPosition (cur_of c P) = r" and num: "chunkNumber (cur_of c P) = int q"
    by (simp_all add: cur_of_def q_def r_def)
  have r: "r < c" using c by (simp add: r_def)
  have ge: "c \<le> r + length buf" using False by (simp add: r_def)
  have L: "length P = q * c + r" by (simp add: q_def r_def)
  have L': "length P' = length P + length buf" by (simp add: P'_def)
  have k: "Suc q * c \<le> length P'" using ge L L' by simp
  have "Suc q * c - length P = c - r" using L r by simp
  moreover have "length P \<le> Suc q * c" using L r by simp
  ultimately have dr: "drop (c + q * c) P' = drop (c - r) buf"
    by (simp add: P'_def)
  have lt: "q < length P' div c"
    using k c by (metis Suc_le_lessD less_eq_div_iff_mult_less_eq One_nat_def)
  have loop: "writeBuffer_loop (int c) (int q) (drop (c - r) buf) [full_chunk c P' q]
                = Some (int (length P' div c) - 1, drop (length P' div c * c) P',
                        map (full_chunk c P') [q ..< length P' div c])"
    using loop_spec [OF c k, of "[full_chunk c P' q]"] lt
    by (simp add: dr upt_conv_Cons)
  have fill: "chunk_write (cur_of c P) (take (c - r) buf) = full_chunk c P' q"
    using cur_write_fill [OF c, of P buf] ge by (simp add: q_def r_def P'_def)
  have rest: "chunk_write (new_Chunk (int (length P' div c))) (drop (length P' div c * c) P')
                = cur_of c P'"
    "length P' \<le> length P' div c * c \<Longrightarrow> new_Chunk (int (length P' div c)) = cur_of c P'"
  proof -
    show "chunk_write (new_Chunk (int (length P' div c))) (drop (length P' div c * c) P')
                = cur_of c P'"
      by (simp add: chunk_write_def new_Chunk_def cur_of_def minus_div_mult_eq_mod)
    assume le: "length P' \<le> length P' div c * c"
    have "length P' mod c = length P' - length P' div c * c"
      by (simp add: minus_div_mult_eq_mod)
    with le show "new_Chunk (int (length P' div c)) = cur_of c P'"
      by (simp add: new_Chunk_def cur_of_def)
  qed
  have cond: "int c \<le> int r + int (length buf)" using ge by simp
  have sl: "slice buf 0 (int c - int r) = take (c - r) buf"
    "slice_from buf (int c - int r) = drop (c - r) buf"
    using r by (simp_all add: slice_0 slice_from_nonneg nat_diff_distrib')
  have "writeBuffer_sync self buf
          = Some (Inr (self\<lparr>currentChunk := Some (cur_of c P'),
                            position := position self + int (length buf)\<rparr>,
                       map (full_chunk c P') [q ..< length P' div c]))"
    using md cs cur cond
    by (simp add: writeBuffer_sync_def pos num sl fill loop rest Let_def)
  then show ?thesis by (simp add: q_def P'_def)
qed

lemma store_range_empty: "k' \<le> k \<Longrightarrow> store_range fid c P k k' d = d"
  by (rule db.equality) (auto simp: store_range_def fun_eq_iff)

lemma save_full_chunks:
  "foldl (\<lambda>d ch. chunk_save fid ch d) d (map (full_chunk c P) [k ..< k'])
     = store_range fid c P k k' d"
proof (induction k')
  case 0
  then show ?case by (simp add: store_range_empty)
next
  case (Suc k')
  show ?case
  proof (cases "k \<le> k'")
    case True
    have "chunk_save fid (full_chunk c P k') (store_range fid c P k k' d)
            = store_range fid c P k (Suc k') d"
      using True
      by (intro db.equality) (auto simp: chunk_save_def store_range_def full_chunk_def fun_eq_iff)
    then show ?thesis using True Suc by simp
  next
    case False
    then show ?thesis by (simp add: store_range_empty)
  qed
qed

lemma gs_write_spec:
  assumes c: "1 \<le> c" and md: "take 1 (mode self) = ''w''" and cs: "chunkSize self = int c"
    and cur: "currentChunk self = Some (cur_of c P)"
  shows "gs_write self buf d
           = Some (Inr (self\<lparr>currentChunk := Some (cur_of c (P @ buf)),
                             position := position self + int (length buf)\<rparr>,
                        store_range (fileId self) c (P @ buf) (length P div c)
                          (length (P @ buf) div c) d))"
  by (simp add: gs_write_def writeBuffer_def writeBuffer_sync_spec [OF assms] save_full_chunks
      del: length_append map_append)

lemma take_drop_prefix:
  assumes "n < k" "k * c \<le> length xs"
  shows "take c (drop (n * c) (xs @ ys)) = take c (drop (n * c) xs)"
proof -
  have "Suc n * c \<le> k * c" using assms(1) by (intro mult_le_mono1) simp
  then have "n * c + c \<le> length xs" using assms(2) by simp
  then show ?thesis by simp
qed

lemma store_range_compose:
  assumes "k1 \<le> k2" "k2 \<le> k3" "k2 * c \<le> length P"
  shows "store_range fid c (P @ Q) k2 k3 (store_range fid c P k1 k2 d)
           = store_range fid c (P @ Q) k1 k3 d"
proof (rule db.equality)
  show "chunks (store_range fid c (P @ Q) k2 k3 (store_range fid c P k1 k2 d))
          = chunks (store_range fid c (P @ Q) k1 k3 d)"
  proof
    fix key :: "nat \<times> int"
    show "chunks (store_range fid c (P @ Q) k2 k3 (store_range fid c P k1 k2 d)) key
            = chunks (store_range fid c (P @ Q) k1 k3 d) key"
    proof (cases "fst key = fid \<and> int k1 \<le> snd key \<and> snd key < int k2")
      case True
      then have "nat (snd key) < k2" by auto
      from take_drop_prefix [OF this assms(3), where ys = Q] True assms(1,2)
      show ?thesis by (auto simp: store_range_def)
    next
      case False
      then show ?thesis using assms(1,2) by (auto simp: store_range_def)
    qed
  qed
qed (simp_all add: store_range_def)

lemma writes_spec:
  assumes c: "1 \<le> c"
  shows "take 1 (mode self) = ''w'' \<Longrightarrow> chunkSize self = int c
    \<Longrightarrow> currentChunk self = Some (cur_of c P)
    \<Longrightarrow> writes self bufs d
           = Some (Inr (self\<lparr>currentChunk := Some (cur_of c (P @ concat bufs)),
                             position := position self + int (length (concat bufs))\<rparr>,
                        store_range (fileId self) c (P @ concat bufs) (length P div c)
                          (length (P @ concat bufs) div c) d))"
proof (induction bufs arbitrary: self P d)
  case Nil
  have "self\<lparr>currentChunk := Some (cur_of c P)\<rparr> = self"
    using Nil(3) by (metis gridstore.surjective gridstore.update_convs(13))
  then show ?case by (simp add: store_range_empty)
next
  case (Cons b bufs)
  let ?self = "self\<lparr>currentChunk := Some (cur_of c (P @ b)),
                     position := position self + int (length b)\<rparr>"
  let ?d = "store_range (fileId self) c (P @ b) (length P div c) (length (P @ b) div c) d"
  have w: "gs_write self b d = Some (Inr (?self, ?d))"
    using Cons.prems by (intro gs_write_spec [OF c])
  have IH: "writes ?self bufs ?d
           = Some (Inr (?self\<lparr>currentChunk := Some (cur_of c ((P @ b) @ concat bufs)),
                             position := position ?self + int (length (concat bufs))\<rparr>,
                        store_range (fileId ?self) c ((P @ b) @ concat bufs) (length (P @ b) div c)
                          (length ((P @ b) @ concat bufs) div c) ?d))"
    using Cons.prems by (intro Cons.IH) (simp_all add: chunkSize_def)
  have le: "length P div c \<le> length (P @ b) div c"
    "length (P @ b) div c \<le> length (P @ b @ concat bufs) div c"
    "length (P @ b) div c * c \<le> length (P @ b)"
    by (simp_all add: div_le_mono)
  have "writes self (b # bufs) d = writes ?self bufs ?d"
    by (simp add: w)
  also note IH
  also have "Some (Inr (?self\<lparr>currentChunk := Some (cur_of c ((P @ b) @ concat bufs)),
                             position := position ?self + int (length (concat bufs))\<rparr>,
                        store_range (fileId ?self) c ((P @ b) @ concat bufs) (length (P @ b) div c)
                          (length ((P @ b) @ concat bufs) div c) ?d))
      = Some (Inr (self\<lparr>currentChunk := Some (cur_of c (P @ concat (b # bufs))),
                             position := position self + int (length (concat (b # bufs)))\<rparr>,
                        store_range (fileId self) c (P @ concat (b # bufs)) (length P div c)
                          (length (P @ concat (b # bufs)) div c) d))"
    using store_range_compose [OF le, of "fileId self" "concat bufs" d]
    by (simp add: add.assoc)
  finally show ?case .
qed

subsection \<open>A read collects the chunks of the payload\<close>

lemma buffer_copy_fill:
  assumes "length A = m" "m + length src \<le> L" "m < L"
  shows "buffer_copy src (map Some A @ replicate (L - m) None) m
           = map Some A @ map Some src @ replicate (L - m - length src) None"
  using assms by (simp add: buffer_copy_def)

lemma readSlice_all:
  "length D \<le> k \<Longrightarrow> readSlice \<lparr>chunkNumber = n, data = D, internalPosition = 0\<rparr> (int k)
     = (D, \<lparr>chunkNumber = n, data = D, internalPosition = length D\<rparr>)"
  by (simp add: readSlice_def)

lemma read_last:
  assumes "file_length self = int (length P)" "position self = 0"
    and "currentChunk self = Some (loaded c P j)" and "j * c < length P" "length P \<le> Suc j * c"
  shows "read self None (Some (buf_at c P j)) d
           = Inr (self\<lparr>currentChunk := Some ((loaded c P j)\<lparr>internalPosition := length P - j * c\<rparr>),
                       position := int (length P)\<rparr>,
                  \<lparr>cells = map Some P, index = Some (j * c)\<rparr>)"
proof -
  define D where "D = take c (drop (j * c) P)"
  have lenD: "length D = length P - j * c" using assms(4,5) by (simp add: D_def)
  have D: "D = drop (j * c) P" using assms(5) by (simp add: D_def)
  have diff: "int (length P) - int (j * c) = int (length P - j * c)"
    using assms(4) by simp
  have rs: "readSlice \<lparr>chunkNumber = int j, data = D, internalPosition = 0\<rparr> (int (length P - j * c))
          = (D, \<lparr>chunkNumber = int j, data = D, internalPosition = length P - j * c\<rparr>)"
    using readSlice_all [of D "length P - j * c" "int j"] by (simp add: lenD)
  have cp: "buffer_copy D (map Some (take (j * c) P) @ replicate (length P - j * c) None) (j * c)
          = map Some P"
    using buffer_copy_fill [of "take (j * c) P" "j * c" D "length P"] assms(4) lenD
    by (simp add: D flip: map_append)
  have cond: "int (length P) \<le> int (length D) - int 0 + int (j * c)"
    using assms(4) by (simp add: lenD)
  show ?thesis
    using assms(4) cond
    apply (subst read.simps)
    apply (simp only: assms(1,2,3) Let_def option.case option.simps if_False loaded_def buf_at_def rbuffer.simps chunk_length_def chunk.simps D_def[symmetric] )
    apply (simp only: cond if_True diff_zero diff rs fst_conv snd_conv cp)
    apply (auto simp add: loaded_def D_def)
    done
qed

lemma read_next:
  assumes "file_length self = int (length P)" "position self = 0"
    and "currentChunk self = Some (loaded c P j)" and "Suc j * c < length P" "1 \<le> c"
    and "\<forall>n. chunks d (fileId self, n) = chunked c P n"
  shows "read self None (Some (buf_at c P j)) d
           = read (self\<lparr>currentChunk := Some (loaded c P (Suc j))\<rparr>) None (Some (buf_at c P (Suc j))) d"
proof -
  define D where "D = take c (drop (j * c) P)"
  have lenD: "length D = c" using assms(4) by (simp add: D_def)
  have rs: "readSlice \<lparr>chunkNumber = int j, data = D, internalPosition = 0\<rparr> (int (length D) - int 0)
          = (D, \<lparr>chunkNumber = int j, data = D, internalPosition = c\<rparr>)"
    using readSlice_all [of D c "int j"] by (simp add: lenD)
  have tk: "map Some (take (j * c) P) @ map Some D = map Some (take (c + j * c) P)"
    unfolding D_def map_append [symmetric] take_add [symmetric] by (simp add: add.commute)
  have cp: "buffer_copy D (map Some (take (j * c) P) @ replicate (length P - j * c) None) (j * c)
          = map Some (take (Suc j * c) P) @ replicate (length P - Suc j * c) None"
    using buffer_copy_fill [of "take (j * c) P" "j * c" D "length P"] assms(4) lenD
    by (simp add: tk [symmetric] add.commute del: map_append)
  have cond: "\<not> int (length P) - 0 \<le> int (length D) - int 0 + int (j * c)"
    using assms(4) by (simp add: lenD del: of_nat_mult)
  have nxt: "nthChunk (self\<lparr>currentChunk := Some \<lparr>chunkNumber = int j, data = D, internalPosition = c\<rparr>\<rparr>)
               (int j + 1) d = loaded c P (Suc j)"
    using assms(4,6) by (simp add: nthChunk_def chunked_def loaded_def nat_add_distrib add.commute)
  have ne: "0 < chunk_length (loaded c P (Suc j))"
    using assms(4,5) by (simp add: chunk_length_def loaded_def)
  have idx: "j * c + length D = Suc j * c" by (simp add: lenD)
  show ?thesis
    apply (subst read.simps)
    apply (simp only: assms(1,2,3) Let_def option.case option.simps if_False loaded_def[of c P j]
        buf_at_def[of c P j] rbuffer.simps chunk_length_def[of "\<lparr>chunkNumber = int j, data = D, internalPosition = 0\<rparr>"]
        chunk.simps D_def[symmetric])
    apply (simp only: cond if_False simp_thms rs fst_conv snd_conv chunk.simps nxt ne if_True cp idx
        buf_at_def[of c P "Suc j"])
    apply simp
    done
qed

lemma read_from:
  assumes c: "1 \<le> c"
  shows "file_length self = int (length P) \<Longrightarrow> position self = 0
    \<Longrightarrow> currentChunk self = Some (loaded c P j) \<Longrightarrow> j * c < length P
    \<Longrightarrow> \<forall>n. chunks d (fileId self, n) = chunked c P n
    \<Longrightarrow> \<exists>self' i. read self None (Some (buf_at c P j)) d
                     = Inr (self', \<lparr>cells = map Some P, index = i\<rparr>)"
proof (induction "length P - j * c" arbitrary: j self rule: less_induct)
  case less
  show ?case
  proof (cases "length P \<le> Suc j * c")
    case True
    then show ?thesis
      using read_last [OF less.prems(1,2,3,4) True, of d] by blast
  next
    case False
    then have lt: "Suc j * c < length P" by simp
    let ?self = "self\<lparr>currentChunk := Some (loaded c P (Suc j))\<rparr>"
    have "length P - Suc j * c < length P - j * c"
      using lt c by simp
    then have "\<exists>self' i. read ?self None (Some (buf_at c P (Suc j))) d
                     = Inr (self', \<lparr>cells = map Some P, index = i\<rparr>)"
      using less.prems lt by (intro less.hyps) simp_all
    then show ?thesis
      using read_next [OF less.prems(1,2,3) lt c less.prems(5)] by simp
  qed
qed

lemma read_None:
  assumes "0 \<le> file_length self - position self"
  shows "read self None None d
           = read self None (Some \<lparr>cells = replicate (nat (file_length self - position self)) None,
                                     index = Some 0\<rparr>) d"
  apply (rule trans [OF read.simps])
  apply (rule trans [OF _ read.simps [symmetric]])
  using assms apply (simp add: Let_def split: option.split)
  done

subsection \<open>A write session and the read that follows it\<close>

lemma open_w:
  assumes "mode self = ''w''
           \<or> mode self = ''w+'' \<and> files d (fileId self) = None
              \<and> (\<forall>n. chunks d (fileId self, n) = None)"
    and "gs_open self d = Inr (self1, d1)"
  shows "currentChunk self1 = Some (new_Chunk 0)" "position self1 = 0"
    "take 1 (mode self1) = ''w''" "fileId self1 = fileId self"
    "\<forall>n. chunks d1 (fileId self, n) = None"
  using assms
  by (auto simp: gs_open_def deleteChunks_def lastChunkNumber_def nthChunk_def new_Chunk_def
      split: option.splits if_splits)

lemma new_Chunk_cur_of: "new_Chunk 0 = cur_of c []"
  by (simp add: new_Chunk_def cur_of_def)

lemma close_w:
  assumes "take 1 (mode self) = ''w''" "currentChunk self = Some ch"
  shows "\<exists>self3 doc. close self now md5 d
           = Inr (self3,
                  d\<lparr>chunks := (if internalPosition ch > 0
                                then (chunks d)((fileId self, chunkNumber ch) \<mapsto> data ch)
                                else chunks d),
                     files := (files d)(fileId self \<mapsto> doc)\<rparr>, Some doc)
         \<and> doc_length doc = position self \<and> doc_chunkSize doc = chunkSize self"
  using assms
  by (auto simp: close_def Let_def chunk_save_def files_save_def files_remove_def buildMongoObject_def
      chunkSize_def intro!: db.equality)

lemma chunked_layout:
  assumes c: "1 \<le> c"
  shows "(if 0 < length P mod c \<and> n = int (length P div c) then Some (drop (length P div c * c) P)
          else if 0 \<le> n \<and> n < int (length P div c) then Some (take c (drop (nat n * c) P))
          else None) = chunked c P n"
proof -
  define q r where "q = length P div c" and "r = length P mod c"
  have L: "length P = q * c + r" and r: "r < c"
    using c by (simp_all add: q_def r_def)
  consider "n < 0" | "0 \<le> n" "nat n < q" | "n = int q" | "0 \<le> n" "q < nat n"
    by linarith
  then have "(if 0 < r \<and> n = int q then Some (drop (q * c) P)
          else if 0 \<le> n \<and> n < int q then Some (take c (drop (nat n * c) P))
          else None) = chunked c P n"
  proof cases
    case 1
    then show ?thesis by (simp add: chunked_def)
  next
    case 2
    then have "Suc (nat n) * c \<le> q * c" by (intro mult_le_mono1) simp
    then have "nat n * c < length P" using L c by simp
    then show ?thesis using 2 by (auto simp: chunked_def)
  next
    case 3
    have "length (drop (q * c) P) = r" using L by simp
    then have "take c (drop (q * c) P) = drop (q * c) P" using r by simp
    then show ?thesis using 3 L by (auto simp: chunked_def)
  next
    case 4
    then have "Suc q * c \<le> nat n * c" by (intro mult_le_mono1) simp
    then have "\<not> nat n * c < length P" using L r by simp
    then show ?thesis using 4 by (auto simp: chunked_def)
  qed
  then show ?thesis unfolding q_def r_def .
qed

lemma session_spec:
  assumes op: "gs_open self0 d0 = Inr (self1, d1)"
    and md: "mode self0 = ''w''
           \<or> mode self0 = ''w+'' \<and> files d0 (fileId self0) = None
              \<and> (\<forall>n. chunks d0 (fileId self0, n) = None)"
    and cs: "chunkSize self1 = int c" and c: "1 \<le> c"
  shows "\<exists>self3 d3 doc. write_session self0 bufs now md5 d0 = Some (Inr (self3, d3))
           \<and> (\<forall>n. chunks d3 (fileId self0, n) = chunked c (concat bufs) n)
           \<and> files d3 (fileId self0) = Some doc
           \<and> doc_length doc = int (length (concat bufs))"
proof -
  define P where "P = concat bufs"
  note o = open_w [OF md op]
  have md1: "take 1 (mode self1) = ''w''" using o(3) .
  have cur: "currentChunk self1 = Some (cur_of c [])" using o(1) by (simp add: new_Chunk_cur_of)
  let ?self2 = "self1\<lparr>currentChunk := Some (cur_of c P), position := int (length P)\<rparr>"
  let ?d2 = "store_range (fileId self1) c P 0 (length P div c) d1"
  have w: "writes self1 bufs d1 = Some (Inr (?self2, ?d2))"
    using writes_spec [OF c md1 cs cur, of bufs d1] o(2) by (simp add: P_def)
  obtain self3 doc where
    cl: "close ?self2 now md5 ?d2
           = Inr (self3,
                  ?d2\<lparr>chunks := (if internalPosition (cur_of c P) > 0
                                then (chunks ?d2)((fileId ?self2, chunkNumber (cur_of c P)) \<mapsto> data (cur_of c P))
                                else chunks ?d2),
                     files := (files ?d2)(fileId ?self2 \<mapsto> doc)\<rparr>, Some doc)"
    and doc: "doc_length doc = position ?self2"
    using close_w [of ?self2 "cur_of c P" now md5 ?d2] md1 by auto
  let ?d3 = "?d2\<lparr>chunks := (if internalPosition (cur_of c P) > 0
                                then (chunks ?d2)((fileId ?self2, chunkNumber (cur_of c P)) \<mapsto> data (cur_of c P))
                                else chunks ?d2),
                     files := (files ?d2)(fileId ?self2 \<mapsto> doc)\<rparr>"
  have ws: "write_session self0 bufs now md5 d0 = Some (Inr (self3, ?d3))"
    by (simp add: write_session_def op w cl)
  have lay: "chunks ?d3 (fileId self0, n) = chunked c P n" for n
    using chunked_layout [OF c, of P n] o(4)
    by (auto simp: store_range_def cur_of_def o(5))
  show ?thesis
    using ws lay doc o(4) by (auto simp: P_def)
qed

lemma read_all_spec:
  assumes md: "mode r0 = ''r''" and doc: "files d (fileId r0) = Some doc"
    and len: "doc_length doc = int (length P)" and ne: "P \<noteq> []" and c: "1 \<le> c"
    and lay: "\<forall>n. chunks d (fileId r0, n) = chunked c P n"
  shows "read_all r0 d = Inr (map Some P)"
proof -
  obtain r1 where op: "gs_open r0 d = Inr (r1, d)"
    and r1: "file_length r1 = int (length P)" "position r1 = 0" "fileId r1 = fileId r0"
      "currentChunk r1 = Some (loaded c P 0)"
    using md doc len lay ne
    by (auto simp: gs_open_def nthChunk_def chunked_def loaded_def)
  have "read r1 None None d = read r1 None (Some (buf_at c P 0)) d"
    using read_None [of r1 d] r1(1,2) by (simp add: buf_at_def)
  moreover obtain self' i where "read r1 None (Some (buf_at c P 0)) d
                     = Inr (self', \<lparr>cells = map Some P, index = i\<rparr>)"
    using read_from [OF c r1(1,2,4), of d] ne lay r1(3) by auto
  ultimately show ?thesis by (simp add: read_all_def op)
qed

lemma open_sample_w: "gs_open (sample_handle ''w'' cs) empty_db = Inr (opened cs, empty_db)"
  by (simp add: gs_open_def sample_handle_def empty_db_def deleteChunks_def no_options_def opened_def
      fun_eq_iff)

lemma opened_simps: "chunkSize (opened cs) = cs" "fileId (opened cs) = 1" "mode (opened cs) = ''w''"
  by (simp_all add: opened_def sample_handle_def chunkSize_def)

lemma sample_simps: "mode (sample_handle md cs) = md" "fileId (sample_handle md cs) = 1"
  by (simp_all add: sample_handle_def)

lemma empty_session:
  "write_session (sample_handle ''w'' 4) [] 100 [] empty_db
     = Some (Inr ((opened 4)\<lparr>uploadDate := Some 100\<rparr>, empty_file_db))"
  unfolding write_session_def open_sample_w
  by (simp add: close_def opened_def sample_handle_def new_Chunk_def
      buildMongoObject_def files_save_def empty_file_db_def empty_db_def chunkSize_def Let_def)

text \<open>
  The scenario of the specification: \<open>''hello world''\<close>, 11 bytes, written with chunk size 4
  gives three chunks of 4, 4 and 3 bytes and a file document of length 11, and reads back whole.
\<close>

lemma hello_world_scenario:
  "write_session (sample_handle ''w'' 4) [''hello world''] 100 [] empty_db
     = Some (Inr (hello_handle, hello_db))
   \<and> read_all (sample_handle ''r'' 4) hello_db = Inr (map Some ''hello world'')"
proof -
  have "write_session (sample_handle ''w'' 4) [''hello world''] 100 [] empty_db
     = Some (Inr (hello_handle, hello_db))"
    unfolding write_session_def open_sample_w
    by (simp add: gs_write_def writeBuffer_def writeBuffer_sync_def opened_def sample_handle_def
      chunkSize_def new_Chunk_def chunk_write_def slice_def slice_from_def clamp_def
      writeBuffer_loop.simps Let_def chunk_save_def close_def buildMongoObject_def files_save_def
      hello_handle_def hello_db_def sample_doc_def empty_db_def fun_upd_twist)
  moreover have "read_all (sample_handle ''r'' 4) hello_db = Inr (map Some ''hello world'')"
    by (simp add: read_all_def gs_open_def sample_handle_def hello_db_def empty_db_def sample_doc_def
        nthChunk_def new_Chunk_def read.simps chunk_length_def readSlice_def buffer_copy_def Let_def
        eval_nat_numeral)
  ultimately show ?thesis by simp
qed

text \<open>
  C1 (as amended). A handle opened in mode \<open>w\<close>, or in mode \<open>w+\<close> on a file that has no
  document and no chunks yet, whose chunk size is \<open>c \<ge> 1\<close> writes the
  buffers \<open>bufs\<close>, one \<open>write\<close> call each, and is closed; the payload \<open>concat bufs\<close> is not
  empty. Then the session completes, and a handle on the same file id opened in mode \<open>r\<close>
  reads back, with \<open>read(callback)\<close>, a buffer whose bytes are exactly the payload. This holds
  for every such \<open>c\<close>, every split of the payload into \<open>write\<close> calls and every database
  the session starts from.
\<close>

theorem write_then_read_roundtrip:
  assumes "gs_open w0 d0 = Inr (w1, d1)"
    and "mode w0 = ''w''
           \<or> mode w0 = ''w+'' \<and> files d0 (fileId w0) = None
              \<and> (\<forall>n. chunks d0 (fileId w0, n) = None)"
    and "chunkSize w1 = int c" and "1 \<le> c" and "concat bufs \<noteq> []"
    and "mode r0 = ''r''" and "fileId r0 = fileId w0"
  shows "\<exists>w3 d3. write_session w0 bufs now md5 d0 = Some (Inr (w3, d3))
                 \<and> read_all r0 d3 = Inr (map Some (concat bufs))"
proof -
  obtain w3 d3 doc where s: "write_session w0 bufs now md5 d0 = Some (Inr (w3, d3))"
    and lay: "\<forall>n. chunks d3 (fileId w0, n) = chunked c (concat bufs) n"
    and doc: "files d3 (fileId w0) = Some doc" "doc_length doc = int (length (concat bufs))"
    using session_spec [OF assms(1,2,3,4), of bufs now md5] by blast
  have "read_all r0 d3 = Inr (map Some (concat bufs))"
    using read_all_spec [of r0 d3 doc "concat bufs" c] assms(4,5,6,7) lay doc by simp
  with s show ?thesis by blast
qed

theorem write_then_read_roundtrip_witness:
  "\<exists>w3 d3. write_session (sample_handle ''w'' 4) [''hello'', '' world''] 100 [] empty_db
               = Some (Inr (w3, d3))
           \<and> read_all (sample_handle ''r'' 4) d3 = Inr (map Some ''hello world'')"
  using write_then_read_roundtrip [OF open_sample_w, of 4 4 "[''hello'', '' world'']"
      "sample_handle ''r'' 4" 100 "[]"]
  by (simp add: opened_simps sample_simps)

text \<open>
  C1 as stated fails for the empty payload (length 0, a multiple of every chunk size): the
  session writes no chunk and a file document of length 0, and \<open>read\<close> answers the read of
  length 0 with the error "File does not exist" instead of an empty buffer.
\<close>

theorem empty_payload_read_counterexample:
  "write_session (sample_handle ''w'' 4) [] 100 [] empty_db
     = Some (Inr ((opened 4)\<lparr>uploadDate := Some 100\<rparr>, empty_file_db))
   \<and> read_all (sample_handle ''r'' 4) empty_file_db = Inl NotFound"
  by (simp add: empty_session)
     (simp add: read_all_def gs_open_def sample_handle_def empty_file_db_def empty_db_def
        nthChunk_def new_Chunk_def read.simps chunk_length_def readSlice_def buffer_copy_def Let_def)

subsection \<open>The chunk documents of a closed file\<close>

lemma below_ceil_div: "1 \<le> c \<Longrightarrow> (m * c < L) = (m < ceil_div L c)"
proof -
  assume c: "1 \<le> c"
  have "(m < ceil_div L c) = (Suc m \<le> (L + c - 1) div c)"
    by (simp add: ceil_div_def Suc_le_eq)
  also have "\<dots> = (Suc m * c \<le> L + c - 1)"
    using c by (simp add: less_eq_div_iff_mult_less_eq)
  also have "\<dots> = (m * c < L)"
    using c by auto
  finally show ?thesis by simp
qed

lemma persisted_chunked:
  assumes "1 \<le> c" "\<forall>n. chunks d (fid, n) = chunked c P n"
  shows "persisted fid d = {0 ..< int (ceil_div (length P) c)}"
  using assms below_ceil_div [of c _ "length P"]
  by (auto simp: persisted_def chunked_def)

lemma chunked_length:
  assumes "1 \<le> c" "chunked c P n = Some bytes"
  shows "0 < length bytes \<and> length bytes \<le> c
         \<and> (n + 1 < int (ceil_div (length P) c) \<longrightarrow> length bytes = c)"
proof -
  from assms(2) have n: "0 \<le> n" "nat n * c < length P" and b: "bytes = take c (drop (nat n * c) P)"
    by (auto simp: chunked_def split: if_splits)
  have "length bytes = c" if "n + 1 < int (ceil_div (length P) c)"
  proof -
    from that n(1) have "Suc (nat n) < ceil_div (length P) c" by linarith
    then have "Suc (nat n) * c < length P" using below_ceil_div [OF assms(1)] by blast
    then show ?thesis using b by simp
  qed
  then show ?thesis using n assms(1) b by auto
qed

text \<open>
  C2 (as amended). After a write session in mode \<open>w\<close>, or in mode \<open>w+\<close> on a file that
  has no document and no chunks yet, with chunk size \<open>c \<ge> 1\<close> and a
  payload of \<open>L\<close> bytes has been closed, the chunk documents of the file are those with the
  indices \<open>0, \<dots>, ceil(L / c) - 1\<close>, with no gap, so there are \<open>ceil(L / c)\<close> of them (none
  when \<open>L = 0\<close>); every one holds between 1 and \<open>c\<close> bytes, and every one but the last
  exactly \<open>c\<close>.
\<close>

theorem chunk_layout_after_close:
  assumes "gs_open self0 d0 = Inr (self1, d1)"
    and "mode self0 = ''w''
           \<or> mode self0 = ''w+'' \<and> files d0 (fileId self0) = None
              \<and> (\<forall>n. chunks d0 (fileId self0, n) = None)"
    and "chunkSize self1 = int c" and "1 \<le> c"
  shows "\<exists>self3 d3. write_session self0 bufs now md5 d0 = Some (Inr (self3, d3))
           \<and> persisted (fileId self0) d3 = {0 ..< int (ceil_div (length (concat bufs)) c)}
           \<and> card (persisted (fileId self0) d3) = ceil_div (length (concat bufs)) c
           \<and> (\<forall>n bytes. chunks d3 (fileId self0, n) = Some bytes
                  \<longrightarrow> 0 < length bytes \<and> length bytes \<le> c
                      \<and> (n + 1 < int (ceil_div (length (concat bufs)) c) \<longrightarrow> length bytes = c))"
proof -
  obtain self3 d3 doc where s: "write_session self0 bufs now md5 d0 = Some (Inr (self3, d3))"
    and lay: "\<forall>n. chunks d3 (fileId self0, n) = chunked c (concat bufs) n"
    using session_spec [OF assms, of bufs now md5] by blast
  have p: "persisted (fileId self0) d3 = {0 ..< int (ceil_div (length (concat bufs)) c)}"
    using persisted_chunked [OF assms(4) lay] .
  have "\<forall>n bytes. chunks d3 (fileId self0, n) = Some bytes
                  \<longrightarrow> 0 < length bytes \<and> length bytes \<le> c
                      \<and> (n + 1 < int (ceil_div (length (concat bufs)) c) \<longrightarrow> length bytes = c)"
    using chunked_length [OF assms(4)] lay by simp
  with s p show ?thesis by auto
qed

theorem chunk_layout_after_close_witness:
  "\<exists>self3 d3. write_session (sample_handle ''w'' 4) [''hello'', '' world''] 100 [] empty_db
                 = Some (Inr (self3, d3))
           \<and> persisted 1 d3 = {0 ..< 3}
           \<and> card (persisted 1 d3) = 3"
  using chunk_layout_after_close [OF open_sample_w, of 4 4 "[''hello'', '' world'']" 100 "[]"]
  by (auto simp add: opened_simps sample_simps ceil_div_def)

text \<open>
  C2 as stated fails for the empty payload: \<open>close\<close> saves the current chunk only when it
  holds bytes, so the closed file has no chunk document, not \<open>max(1, ceil(0 / c)) = 1\<close>.
\<close>

theorem empty_payload_chunks_counterexample:
  "write_session (sample_handle ''w'' 4) [] 100 [] empty_db
     = Some (Inr ((opened 4)\<lparr>uploadDate := Some 100\<rparr>, empty_file_db))
   \<and> card (persisted 1 empty_file_db) = 0
   \<and> max 1 (ceil_div 0 4) = 1"
  by (simp add: empty_session)
     (simp add: persisted_def empty_file_db_def empty_db_def ceil_div_def)

subsection \<open>Position and current chunk after a write\<close>

lemma loop_done:
  "int (length left) < cs \<Longrightarrow> writeBuffer_loop cs prev left acc = Some (prev, left, acc)"
  by (subst writeBuffer_loop.simps) simp

lemma loop_terminates:
  assumes "1 \<le> cs"
  shows "\<exists>prev' left' acc'. writeBuffer_loop cs prev left acc = Some (prev', left', acc')
           \<and> int (length left') < cs"
proof (induction "length left" arbitrary: prev left acc rule: less_induct)
  case less
  show ?case
  proof (cases "cs \<le> int (length left)")
    case True
    then have "length (slice_from left cs) < length left"
      using assms by (simp add: slice_from_nonneg)
    from less [OF this] show ?thesis
      using True by (subst writeBuffer_loop.simps) simp
  next
    case False
    then show ?thesis by (simp add: loop_done)
  qed
qed

lemma close_w_position:
  assumes "take 1 (mode self) = ''w''"
  shows "\<exists>self' d' doc. close self now md5 d = Inr (self', d', doc) \<and> position self' = position self"
  using assms by (simp add: close_def Let_def)

lemma writeBuffer_sync_position:
  assumes "take 1 (mode self) = ''w''" and "currentChunk self = Some cur" and "1 \<le> chunkSize self"
  shows "\<exists>self' pending. writeBuffer_sync self buf = Some (Inr (self', pending))
           \<and> position self' = position self + int (length buf)
           \<and> take 1 (mode self') = ''w''"
proof (cases "chunkSize self \<le> int (internalPosition cur) + int (length buf)")
  case True
  obtain prev' left' acc' where
    "writeBuffer_loop (chunkSize self) (chunkNumber cur)
       (slice_from buf (chunkSize self - int (internalPosition cur)))
       [chunk_write cur (slice buf 0 (chunkSize self - int (internalPosition cur)))]
     = Some (prev', left', acc')"
    using loop_terminates [OF assms(3)] by blast
  then show ?thesis
    using True assms(1,2) by (simp add: writeBuffer_sync_def Let_def)
next
  case False
  then show ?thesis
    using assms(1,2) by (simp add: writeBuffer_sync_def Let_def)
qed

text \<open>
  C3. A \<open>write(data)\<close> on an open write-mode handle with a chunk size of at least 1 reaches
  the point where the saves of the filled chunks have been issued and none has completed (the
  database is untouched) with \<open>position\<close> already advanced by exactly \<open>data.length\<close>;
  the completion of the saves, and the close that may follow, leave that position as it is.
\<close>

theorem write_advances_position:
  assumes "take 1 (mode self) = ''w''" and "currentChunk self = Some cur" and "1 \<le> chunkSize self"
  shows "\<exists>self' pending.
            writeBuffer_sync self buf = Some (Inr (self', pending))
          \<and> position self' = position self + int (length buf)
          \<and> gs_write self buf d
              = Some (Inr (self', foldl (\<lambda>d c. chunk_save (fileId self') c d) d pending))
          \<and> (\<exists>self'' d''. writeBuffer self buf True now md5 d = Some (Inr (self'', d''))
                \<and> position self'' = position self + int (length buf))"
proof -
  obtain self' pending where s: "writeBuffer_sync self buf = Some (Inr (self', pending))"
    and p: "position self' = position self + int (length buf)" and m: "take 1 (mode self') = ''w''"
    using writeBuffer_sync_position [OF assms] by blast
  have w: "gs_write self buf d
              = Some (Inr (self', foldl (\<lambda>d c. chunk_save (fileId self') c d) d pending))"
    by (simp add: gs_write_def writeBuffer_def s)
  obtain self'' d'' doc where
    "close self' now md5 (foldl (\<lambda>d c. chunk_save (fileId self') c d) d pending)
       = Inr (self'', d'', doc)" and "position self'' = position self'"
    using close_w_position [OF m] by blast
  then have "writeBuffer self buf True now md5 d = Some (Inr (self'', d''))
                \<and> position self'' = position self + int (length buf)"
    using p by (simp add: writeBuffer_def s)
  with s p w show ?thesis by blast
qed

theorem write_advances_position_witness:
  "writeBuffer_sync (opened 4) ''hello world''
     = Some (Inr ((opened 4)\<lparr>currentChunk := Some \<lparr>chunkNumber = 2, data = ''rld'', internalPosition = 3\<rparr>,
                            position := 11\<rparr>,
                  [\<lparr>chunkNumber = 0, data = ''hell'', internalPosition = 4\<rparr>,
                   \<lparr>chunkNumber = 1, data = ''o wo'', internalPosition = 4\<rparr>]))
   \<and> position (opened 4) + int (length ''hello world'') = 11"
  using write_advances_position [of "opened 4" "new_Chunk 0" "''hello world''" empty_db 100 "[]"]
  by (simp add: opened_def sample_handle_def writeBuffer_sync_def chunkSize_def new_Chunk_def
      chunk_write_def slice_def slice_from_def clamp_def writeBuffer_loop.simps Let_def)




subsection \<open>A read that meets a missing chunk\<close>

text \<open>
  C4 (as amended). A \<open>read\<close> on an open handle needs more bytes than the current chunk has
  left, and the next chunk is missing or empty. Then the read fails with the Corruption error
  exactly when no byte has been copied into the result buffer, neither by this call nor before
  it; when at least one byte has been copied, the callback receives the partly filled buffer
  and no error.
\<close>

theorem read_missing_chunk:
  assumes cur: "currentChunk self = Some cur"
    and ok: "buffer = None \<longrightarrow> 0 \<le> final_length self len"
    and more: "int (chunk_length cur) - int (internalPosition cur) + int (buffer_index buffer)
                 < final_length self len"
    and miss: "chunks d (fileId self, chunkNumber cur + 1) = None
               \<or> chunks d (fileId self, chunkNumber cur + 1) = Some []"
  shows "read self len buffer d =
     (if 0 < buffer_index buffer + (length (data cur) - internalPosition cur)
      then Inr (self\<lparr>currentChunk := Some (cur\<lparr>internalPosition := internalPosition cur
                                                  + (length (data cur) - internalPosition cur)\<rparr>)\<rparr>,
                \<lparr>cells = buffer_copy (drop (internalPosition cur) (data cur))
                           (final_buffer self len buffer) (buffer_index buffer),
                 index = Some (buffer_index buffer + (length (data cur) - internalPosition cur))\<rparr>)
      else Inl Corruption)"
proof -
  have rs: "readSlice cur (int (chunk_length cur) - int (internalPosition cur))
          = (drop (internalPosition cur) (data cur),
             cur\<lparr>internalPosition := internalPosition cur + (length (data cur) - internalPosition cur)\<rparr>)"
    by (simp add: readSlice_def chunk_length_def Let_def min_def nat_diff_distrib')
  have nx: "chunk_length (nthChunk s (chunkNumber cur + 1) d) = 0" if "fileId s = fileId self" for s
    using miss that by (auto simp: nthChunk_def chunk_length_def new_Chunk_def)
  show ?thesis
    using cur ok more
    by (subst read.simps)
       (auto simp: Let_def rs nx final_length_def buffer_index_def final_buffer_def
          split: option.splits)
qed

lemma open_reader:
  "gs_open (sample_handle ''r'' 4) gap_db = Inr (reader 11 gap_db, gap_db)"
  "gs_open (sample_handle ''r'' 4) lost_db = Inr (reader 11 lost_db, lost_db)"
  by (simp_all add: gs_open_def sample_handle_def gap_db_def lost_db_def empty_db_def sample_doc_def
      reader_def nthChunk_def)

theorem read_missing_chunk_witness:
  "read (reader 11 lost_db) None None lost_db = Inl Corruption
   \<and> read ((reader 11 gap_db)\<lparr>currentChunk := Some \<lparr>chunkNumber = 0, data = ''hell'', internalPosition = 4\<rparr>\<rparr>)
        (Some 5) None gap_db = Inl Corruption"
  using read_missing_chunk [of "reader 11 lost_db" "new_Chunk 0" None None lost_db]
        read_missing_chunk [of "(reader 11 gap_db)\<lparr>currentChunk := Some \<lparr>chunkNumber = 0, data = ''hell'', internalPosition = 4\<rparr>\<rparr>"
           "\<lparr>chunkNumber = 0, data = ''hell'', internalPosition = 4\<rparr>" None "Some 5" gap_db]
  by (simp add: reader_def sample_handle_def lost_db_def gap_db_def empty_db_def nthChunk_def new_Chunk_def
      final_length_def buffer_index_def chunk_length_def)

text \<open>
  C4 as stated fails: the file has 11 bytes in chunks of 4 and chunk 1 is missing; the read
  of the whole file copies chunk 0 and hands the buffer, 7 cells of it never written, to the
  callback without an error.
\<close>

theorem missing_chunk_delivers_buffer_counterexample:
  "read_all (sample_handle ''r'' 4) gap_db = Inr (map Some ''hell'' @ replicate 7 None)"
  unfolding read_all_def open_reader
  by (simp add: reader_def sample_handle_def gap_db_def empty_db_def nthChunk_def new_Chunk_def
      read.simps chunk_length_def readSlice_def buffer_copy_def Let_def eval_nat_numeral)

subsection \<open>The upload date on a second close\<close>

lemma abcd_session:
  "write_session (sample_handle ''w'' 4) [''abcd''] t [] empty_db = Some (Inr (abcd_handle t, abcd_db t))"
  unfolding write_session_def open_sample_w
  by (simp add: gs_write_def writeBuffer_def writeBuffer_sync_def opened_def sample_handle_def
      chunkSize_def new_Chunk_def chunk_write_def slice_def slice_from_def clamp_def
      writeBuffer_loop.simps Let_def chunk_save_def close_def buildMongoObject_def files_save_def
      abcd_handle_def abcd_db_def sample_doc_def empty_db_def)

text \<open>
  C5. The code at the failing input: the session writes 4 bytes with chunk size 4 and closes
  at time 100, so the current chunk is the empty chunk 1 and the upload date is 100; the second
  \<open>close\<close>, at time 200, takes the branch for an empty current chunk, which sets the upload
  date again: the handle and the saved file document now carry 200.
\<close>

theorem second_close_resets_uploadDate:
  "write_session (sample_handle ''w'' 4) [''abcd''] 100 [] empty_db
     = Some (Inr (abcd_handle 100, abcd_db 100))
   \<and> uploadDate (abcd_handle 100) = Some 100
   \<and> close (abcd_handle 100) 200 [] (abcd_db 100)
       = Inr (abcd_handle 200, abcd_db 200, Some (sample_doc 4 200))"
  by (simp add: abcd_session)
     (simp add: abcd_handle_def abcd_db_def close_def opened_def sample_handle_def new_Chunk_def
        buildMongoObject_def files_save_def sample_doc_def chunkSize_def Let_def empty_db_def)

end
